theory Spec2Isabelle
  imports Complex_Main
begin

section \<open>Numbers of the strategy: decimals and float64\<close>

text \<open>
  The strategy computes on \<^verbatim>\<open>decimal.Decimal\<close> (shopspring/decimal v1.4.0): a value
  \<open>coefficient * 10 ^ exponent\<close> of unbounded size. \<^verbatim>\<open>Add\<close>, \<^verbatim>\<open>Sub\<close> and \<^verbatim>\<open>Mul\<close> are
  exact, the comparisons (\<^verbatim>\<open>GreaterThan\<close>, \<^verbatim>\<open>LessThanOrEqual\<close>, ...) compare the numbers, and
  the zero value of the Go type is the number 0. A decimal is therefore modelled by the
  rational number it denotes; \<^verbatim>\<open>Add\<close>, \<^verbatim>\<open>Sub\<close>, \<^verbatim>\<open>Mul\<close> are \<open>+\<close>, \<open>-\<close>, \<open>*\<close> on \<open>rat\<close>.
  Only \<^verbatim>\<open>Div\<close> and \<^verbatim>\<open>NewFromFloat\<close> are not exact; both are written out below.
\<close>

type_synonym decimal = rat

datatype panic = IndexOutOfRange | DivisionByZero | FloatNotFinite

definition pbind :: "panic + 'a \<Rightarrow> ('a \<Rightarrow> panic + 'b) \<Rightarrow> panic + 'b" where
  "pbind m f = (case m of Inl e \<Rightarrow> Inl e | Inr x \<Rightarrow> f x)"

definition pow2 :: "int \<Rightarrow> rat" where
  "pow2 e = (if 0 \<le> e then 2 ^ nat e else 1 / 2 ^ nat (- e))"

definition pow10 :: "int \<Rightarrow> rat" where
  "pow10 e = (if 0 \<le> e then 10 ^ nat e else 1 / 10 ^ nat (- e))"

subsection \<open>Decimal division\<close>

text \<open>
  \<^verbatim>\<open>d.Div(d2)\<close> is \<^verbatim>\<open>d.DivRound(d2, DivisionPrecision)\<close> with the package default
  \<^verbatim>\<open>DivisionPrecision = 16\<close> (the repository never changes it): the quotient with 16
  digits after the decimal point, the last one rounded half away from zero. Division by
  zero panics.
\<close>

definition DivisionPrecision :: nat where
  "DivisionPrecision = 16"

definition round_half_away :: "rat \<Rightarrow> int" where
  "round_half_away x = (if 0 \<le> x then \<lfloor>x + 1 / 2\<rfloor> else - \<lfloor>- x + 1 / 2\<rfloor>)"

definition DivRound :: "decimal \<Rightarrow> decimal \<Rightarrow> nat \<Rightarrow> decimal" where
  "DivRound d d2 precision = of_int (round_half_away (d / d2 * 10 ^ precision)) / 10 ^ precision"

definition Div :: "decimal \<Rightarrow> decimal \<Rightarrow> panic + decimal" where
  "Div d d2 = (if d2 = 0 then Inl DivisionByZero else Inr (DivRound d d2 DivisionPrecision))"

subsection \<open>float64 and the conversion of a float64 to a decimal\<close>

text \<open>
  A finite float64 is modelled by the rational it denotes. \<open>float64_round\<close> is the IEEE 754
  rounding of a real result to binary64 (53 bits of mantissa, round to nearest, ties to
  even, gradual underflow below \<open>2 ^ -1022\<close>); every float64 operation of the source is
  the exact operation followed by this rounding, and a literal such as \<^verbatim>\<open>0.998\<close> is the
  rounding of the decimal written. Overflow cannot happen on the values of this program;
  the one infinite quotient, \<^verbatim>\<open>2.0 / 0.0\<close>, is a branch of \<open>CalculateEMA\<close>.
\<close>

definition round_half_even :: "rat \<Rightarrow> int" where
  "round_half_even x =
     (let f = \<lfloor>x\<rfloor>; r = x - of_int f
      in if r < 1 / 2 then f else if 1 / 2 < r then f + 1 else if even f then f else f + 1)"

text \<open>
  The exponent of a positive number in base \<open>b\<close>: the \<open>e\<close> with \<open>b ^ e \<le> x < b ^ (e + 1)\<close>,
  found by dividing (from 1 upwards) or multiplying (below 1) by the base.
\<close>

function exponent_up :: "rat \<Rightarrow> rat \<Rightarrow> int" where
  "exponent_up b x = (if 2 \<le> b \<and> b \<le> x then 1 + exponent_up b (x / b) else 0)"
  by pat_completeness auto
termination
proof (relation "measure (\<lambda>(b, x). nat \<lfloor>x\<rfloor>)")
  show "wf (measure (\<lambda>(b, x). nat \<lfloor>x\<rfloor>))" by simp
next
  fix b x :: rat
  assume a: "2 \<le> b \<and> b \<le> x"
  then have "x / b \<le> x / 2" by (intro divide_left_mono) simp_all
  also have "\<dots> \<le> x - 1" using a by simp
  finally have "\<lfloor>x / b\<rfloor> \<le> \<lfloor>x\<rfloor> - 1" by linarith
  moreover have "1 \<le> \<lfloor>x\<rfloor>" using a by linarith
  ultimately show "((b, x / b), (b, x)) \<in> measure (\<lambda>(b, x). nat \<lfloor>x\<rfloor>)" by simp
qed

function exponent_down :: "rat \<Rightarrow> rat \<Rightarrow> int" where
  "exponent_down b x = (if 2 \<le> b \<and> 0 < x \<and> x < 1 then exponent_down b (x * b) - 1 else 0)"
  by pat_completeness auto
termination
proof (relation "measure (\<lambda>(b, x). nat \<lfloor>1 / x\<rfloor>)")
  show "wf (measure (\<lambda>(b, x). nat \<lfloor>1 / x\<rfloor>))" by simp
next
  fix b x :: rat
  assume a: "2 \<le> b \<and> 0 < x \<and> x < 1"
  define y where "y = 1 / x"
  have y: "1 < y" using a by (simp add: y_def)
  have yb: "1 / (x * b) = y / b" by (simp add: y_def)
  have half: "y / b \<le> y / 2" using a y by (intro divide_left_mono) simp_all
  have "\<lfloor>y / b\<rfloor> < \<lfloor>y\<rfloor>"
  proof (cases "2 \<le> y")
    case True
    then have "y / 2 \<le> y - 1" by simp
    then show ?thesis using half by linarith
  next
    case False
    then have "y / 2 < 1" by simp
    then have "y / b < 1" using half by linarith
    moreover have "0 \<le> y / b" using a y by simp
    ultimately have "\<lfloor>y / b\<rfloor> = 0" by linarith
    moreover have "1 \<le> \<lfloor>y\<rfloor>" using y by linarith
    ultimately show ?thesis by simp
  qed
  moreover have "1 \<le> \<lfloor>y\<rfloor>" using y by linarith
  ultimately show "((b, x * b), (b, x)) \<in> measure (\<lambda>(b, x). nat \<lfloor>1 / x\<rfloor>)"
    by (simp add: yb y_def[symmetric])
qed

definition binary_exponent :: "rat \<Rightarrow> int" where
  "binary_exponent x = (if 1 \<le> x then exponent_up 2 x else exponent_down 2 x)"

definition decimal_exponent :: "rat \<Rightarrow> int" where
  "decimal_exponent x = (if 1 \<le> x then exponent_up 10 x else exponent_down 10 x)"

definition float64_round :: "rat \<Rightarrow> rat" where
  "float64_round x =
     (if x = 0 then 0
      else let a = \<bar>x\<bar>; e = max (binary_exponent a) (- 1022);
               m = round_half_even (a * pow2 (52 - e))
           in sgn x * of_int m * pow2 (e - 52))"

definition float64_add :: "rat \<Rightarrow> rat \<Rightarrow> rat" where
  "float64_add a b = float64_round (a + b)"

definition float64_div :: "rat \<Rightarrow> rat \<Rightarrow> rat" where
  "float64_div a b = float64_round (a / b)"

text \<open>
  \<^verbatim>\<open>decimal.NewFromFloat\<close> returns the decimal with the fewest significant digits that
  converts back to the same float64 (the package's \<^verbatim>\<open>roundShortest\<close>): digits are taken
  one at a time; as soon as cutting the digits there (rounding down) or cutting and adding
  one unit (rounding up) gives a decimal that still rounds to the float, that decimal is
  the result, the nearer of the two when both do. Seventeen digits always suffice.
\<close>

definition round_down_digits :: "nat \<Rightarrow> rat \<Rightarrow> rat" where
  "round_down_digits n x =
     (let q = pow10 (decimal_exponent x - int n + 1) in of_int \<lfloor>x / q\<rfloor> * q)"

definition round_up_digits :: "nat \<Rightarrow> rat \<Rightarrow> rat" where
  "round_up_digits n x =
     (let q = pow10 (decimal_exponent x - int n + 1) in of_int \<lceil>x / q\<rceil> * q)"

definition round_digits :: "nat \<Rightarrow> rat \<Rightarrow> rat" where
  "round_digits n x =
     (let q = pow10 (decimal_exponent x - int n + 1) in of_int (round_half_even (x / q)) * q)"

fun roundShortest :: "rat \<Rightarrow> nat \<Rightarrow> nat \<Rightarrow> rat" where
  "roundShortest f n 0 = f"
| "roundShortest f n (Suc fuel) =
     (let okdown = (float64_round (round_down_digits n f) = f);
          okup = (float64_round (round_up_digits n f) = f)
      in if okdown \<and> okup then round_digits n f
         else if okdown then round_down_digits n f
         else if okup then round_up_digits n f
         else roundShortest f (Suc n) fuel)"

definition NewFromFloat :: "rat \<Rightarrow> decimal" where
  "NewFromFloat f = (if f = 0 then 0 else sgn f * roundShortest \<bar>f\<bar> 1 17)"

section \<open>Data model\<close>

text \<open>
  \<^verbatim>\<open>time.Time\<close> is an instant, modelled by an integer count of time units. The \<^verbatim>\<open>Reason\<close>
  of a signal is one of four fixed texts of the source, modelled by a tag each.
\<close>

record KlineData =
  Symbol :: string
  Open :: decimal
  High :: decimal
  Low :: decimal
  Close :: decimal
  Volume :: decimal
  Timestamp :: int

datatype TrendDirection = TrendNone | TrendBullish | TrendBearish | TrendSideways

record TunnelData =
  EMA12 :: decimal
  EMA144 :: decimal
  EMA169 :: decimal
  EMA288 :: decimal
  EMA338 :: decimal
  MidTunnelUpper :: decimal
  MidTunnelLower :: decimal
  LongTunnelUpper :: decimal
  LongTunnelLower :: decimal
  TrendDirection :: TrendDirection

datatype SignalType = SignalNone | SignalBuy | SignalSell | SignalStopLoss | SignalTakeProfit

datatype Reason = ReasonLongEntry | ReasonShortEntry | ReasonLongExit | ReasonShortExit

record TradingSignal =
  sigSymbol :: string
  Type :: SignalType
  Price :: decimal
  StopLoss :: decimal
  TakeProfit :: decimal
  Confidence :: rat
  Reason :: Reason
  sigTimestamp :: int
  Timeframe :: string

text \<open>
  The strategy object. The logger has no part in any result and is left out. The four
  float64 parameters hold the rational their float denotes.
\<close>

record VegasTunnelStrategy =
  shortEMAPeriod :: int
  midTunnel1Period :: int
  midTunnel2Period :: int
  longTunnel1Period :: int
  longTunnel2Period :: int
  minTunnelPeriod :: int
  volumeFactor :: rat
  riskRewardRatio :: rat
  stopLossPercent :: rat
  takeProfitPercent :: rat
  kline15MData :: "KlineData list"
  kline4HData :: "KlineData list"

definition NewVegasTunnelStrategy :: VegasTunnelStrategy where
  "NewVegasTunnelStrategy =
     \<lparr>shortEMAPeriod = 12, midTunnel1Period = 144, midTunnel2Period = 169,
      longTunnel1Period = 288, longTunnel2Period = 338, minTunnelPeriod = 3,
      volumeFactor = float64_round (15 / 10), riskRewardRatio = float64_round 2,
      stopLossPercent = float64_round (2 / 100), takeProfitPercent = float64_round (4 / 100),
      kline15MData = [], kline4HData = []\<rparr>"

definition SetParameters ::
  "VegasTunnelStrategy \<Rightarrow> int \<Rightarrow> int \<Rightarrow> int \<Rightarrow> int \<Rightarrow> int \<Rightarrow> rat \<Rightarrow> rat \<Rightarrow> VegasTunnelStrategy" where
  "SetParameters v shortEMA midTunnel1 midTunnel2 longTunnel1 longTunnel2 stopLoss takeProfit =
     v\<lparr>shortEMAPeriod := shortEMA, midTunnel1Period := midTunnel1, midTunnel2Period := midTunnel2,
       longTunnel1Period := longTunnel1, longTunnel2Period := longTunnel2,
       stopLossPercent := stopLoss, takeProfitPercent := takeProfit\<rparr>"

datatype config_error =
  ShortPeriodNotPositive | MidNotAboveShort | LongNotAboveMid
  | StopLossOutOfRange | TakeProfitOutOfRange | RiskRewardTooSmall

definition ValidateParameters :: "VegasTunnelStrategy \<Rightarrow> config_error option" where
  "ValidateParameters v =
     (if shortEMAPeriod v \<le> 0 then Some ShortPeriodNotPositive
      else if midTunnel1Period v \<le> shortEMAPeriod v \<or> midTunnel2Period v \<le> shortEMAPeriod v
        then Some MidNotAboveShort
      else if longTunnel1Period v \<le> midTunnel2Period v \<or> longTunnel2Period v \<le> midTunnel2Period v
        then Some LongNotAboveMid
      else if stopLossPercent v \<le> 0 \<or> float64_round (1 / 10) < stopLossPercent v
        then Some StopLossOutOfRange
      else if takeProfitPercent v \<le> 0 \<or> float64_round (2 / 10) < takeProfitPercent v
        then Some TakeProfitOutOfRange
      else if riskRewardRatio v \<le> 1 then Some RiskRewardTooSmall
      else None)"

section \<open>Series store\<close>

definition UpdateKlineData :: "VegasTunnelStrategy \<Rightarrow> KlineData \<Rightarrow> string \<Rightarrow> VegasTunnelStrategy" where
  "UpdateKlineData v kline timeframe =
     (if timeframe = ''15m'' then
        (let d = kline15MData v @ [kline]
         in v\<lparr>kline15MData := (if 1000 < length d then tl d else d)\<rparr>)
      else if timeframe = ''4h'' then
        (let d = kline4HData v @ [kline]
         in v\<lparr>kline4HData := (if 500 < length d then tl d else d)\<rparr>)
      else v)"

section \<open>Smoothing engine\<close>

text \<open>
  \<^verbatim>\<open>make([]decimal.Decimal, n)\<close> is a slice of \<open>n\<close> zero decimals. The two loops of
  \<^verbatim>\<open>CalculateEMA\<close> are folds over their index ranges. For a period below 1 that is not
  above the length the source panics: on \<^verbatim>\<open>NewFromFloat(+Inf)\<close> when \<open>period + 1 = 0\<close>, on the
  division by \<open>period = 0\<close>, and on the store to index \<open>period - 1 < 0\<close> otherwise.
\<close>

definition ema_alpha :: "int \<Rightarrow> decimal" where
  "ema_alpha period = NewFromFloat (float64_div (float64_round 2) (float64_round (of_int (period + 1))))"

definition ema_step :: "decimal \<Rightarrow> decimal list \<Rightarrow> nat \<Rightarrow> decimal list \<Rightarrow> decimal list" where
  "ema_step alpha prices i result = result[i := prices ! i * alpha + result ! (i - 1) * (1 - alpha)]"

definition CalculateEMA :: "decimal list \<Rightarrow> int \<Rightarrow> panic + decimal list option" where
  "CalculateEMA prices period =
     (if int (length prices) < period then Inr None
      else if period + 1 = 0 then Inl FloatNotFinite
      else
        let result = replicate (length prices) (0 :: decimal);
            alpha = ema_alpha period;
            sum = fold (\<lambda>i s. s + prices ! i) [0..<nat period] 0
        in pbind (Div sum (of_int period)) (\<lambda>sma.
             if period - 1 < 0 then Inl IndexOutOfRange
             else Inr (Some (fold (ema_step alpha prices) [nat period..<length prices]
                               (result[nat (period - 1) := sma])))))"

section \<open>Tunnel classifier\<close>

definition determineTrendDirection :: "TunnelData \<Rightarrow> TrendDirection" where
  "determineTrendDirection tunnel =
     (if LongTunnelUpper tunnel < MidTunnelLower tunnel then TrendBullish
      else if MidTunnelUpper tunnel < LongTunnelLower tunnel then TrendBearish
      else TrendSideways)"

text \<open>The zero value of the struct, which \<^verbatim>\<open>make([]TunnelData, n)\<close> fills the slice with.\<close>

definition zeroTunnelData :: TunnelData where
  "zeroTunnelData =
     \<lparr>EMA12 = 0, EMA144 = 0, EMA169 = 0, EMA288 = 0, EMA338 = 0,
      MidTunnelUpper = 0, MidTunnelLower = 0, LongTunnelUpper = 0, LongTunnelLower = 0,
      TrendDirection = TrendNone\<rparr>"

text \<open>
  The body of the loop of \<^verbatim>\<open>CalculateTunnelData\<close> for one index: the five EMA values
  are stored, the bounds of the two tunnels set, and the direction classified.
\<close>

definition fillTunnel :: "decimal \<Rightarrow> decimal \<Rightarrow> decimal \<Rightarrow> decimal \<Rightarrow> decimal \<Rightarrow> TunnelData" where
  "fillTunnel e12 e144 e169 e288 e338 =
     (let t0 = zeroTunnelData\<lparr>EMA12 := e12, EMA144 := e144, EMA169 := e169,
                                EMA288 := e288, EMA338 := e338\<rparr>;
          t1 = (if EMA169 t0 < EMA144 t0
                then t0\<lparr>MidTunnelUpper := EMA144 t0, MidTunnelLower := EMA169 t0\<rparr>
                else t0\<lparr>MidTunnelUpper := EMA169 t0, MidTunnelLower := EMA144 t0\<rparr>);
          t2 = (if EMA338 t1 < EMA288 t1
                then t1\<lparr>LongTunnelUpper := EMA288 t1, LongTunnelLower := EMA338 t1\<rparr>
                else t1\<lparr>LongTunnelUpper := EMA338 t1, LongTunnelLower := EMA288 t1\<rparr>)
      in t2\<lparr>TrendDirection := determineTrendDirection t2\<rparr>)"

definition CalculateTunnelData ::
  "VegasTunnelStrategy \<Rightarrow> KlineData list \<Rightarrow> panic + TunnelData list option" where
  "CalculateTunnelData v klines =
     (if int (length klines) < longTunnel2Period v then Inr None
      else
        let prices = map Close klines
        in pbind (CalculateEMA prices (shortEMAPeriod v)) (\<lambda>ema12.
           pbind (CalculateEMA prices (midTunnel1Period v)) (\<lambda>ema144.
           pbind (CalculateEMA prices (midTunnel2Period v)) (\<lambda>ema169.
           pbind (CalculateEMA prices (longTunnel1Period v)) (\<lambda>ema288.
           pbind (CalculateEMA prices (longTunnel2Period v)) (\<lambda>ema338.
             case (ema12, ema144, ema169, ema288, ema338) of
               (Some e12, Some e144, Some e169, Some e288, Some e338) \<Rightarrow>
                 if longTunnel2Period v - 1 < 0 then Inl IndexOutOfRange
                 else Inr (Some (fold
                        (\<lambda>i td. td[i := fillTunnel (e12 ! i) (e144 ! i) (e169 ! i) (e288 ! i) (e338 ! i)])
                        [nat (longTunnel2Period v - 1)..<length klines]
                        (replicate (length klines) zeroTunnelData)))
             | _ \<Rightarrow> Inr None))))))"

section \<open>Signal engine\<close>

definition isPriceNearTunnel :: "decimal \<Rightarrow> TunnelData \<Rightarrow> bool \<Rightarrow> bool" where
  "isPriceNearTunnel price tunnel isLong =
     (let tolerance = NewFromFloat (float64_round (2 / 1000))
      in if isLong then
           (if MidTunnelLower tunnel * (1 - tolerance) \<le> price
               \<and> price \<le> MidTunnelUpper tunnel * (1 + tolerance) then True
            else if LongTunnelLower tunnel * (1 - tolerance) \<le> price
               \<and> price \<le> LongTunnelUpper tunnel * (1 + tolerance) then True
            else False)
         else
           (if MidTunnelLower tunnel * (1 - tolerance) \<le> price
               \<and> price \<le> MidTunnelUpper tunnel * (1 + tolerance) then True
            else if LongTunnelLower tunnel * (1 - tolerance) \<le> price
               \<and> price \<le> LongTunnelUpper tunnel * (1 + tolerance) then True
            else False))"

text \<open>The confidence is a float64; each \<^verbatim>\<open>+=\<close> is a float64 addition.\<close>

definition calculateSignalConfidence :: "TunnelData \<Rightarrow> TunnelData \<Rightarrow> bool \<Rightarrow> rat" where
  "calculateSignalConfidence tunnel4H tunnel15M isLong =
     (let c0 = float64_round (6 / 10);
          c1 = (if isLong
                then (if LongTunnelUpper tunnel4H < MidTunnelLower tunnel4H
                      then float64_add c0 (float64_round (2 / 10)) else c0)
                else (if MidTunnelUpper tunnel4H < LongTunnelLower tunnel4H
                      then float64_add c0 (float64_round (2 / 10)) else c0));
          c2 = (if isLong
                then (if MidTunnelLower tunnel15M < EMA12 tunnel15M
                      then float64_add c1 (float64_round (1 / 10)) else c1)
                else (if EMA12 tunnel15M < MidTunnelUpper tunnel15M
                      then float64_add c1 (float64_round (1 / 10)) else c1))
      in min c2 (float64_round 1))"

definition calculateStopLossAndTakeProfit ::
  "VegasTunnelStrategy \<Rightarrow> TradingSignal \<Rightarrow> TunnelData \<Rightarrow> bool \<Rightarrow> TradingSignal" where
  "calculateStopLossAndTakeProfit v signal tunnel isLong =
     (if isLong then
        (let stopLossLevel = (if LongTunnelUpper tunnel < MidTunnelLower tunnel
                              then LongTunnelUpper tunnel else MidTunnelLower tunnel);
             s1 = signal\<lparr>StopLoss := stopLossLevel * NewFromFloat (float64_round (998 / 1000))\<rparr>;
             riskAmount = Price s1 - StopLoss s1
         in s1\<lparr>TakeProfit := Price s1 + riskAmount * NewFromFloat (riskRewardRatio v)\<rparr>)
      else
        (let stopLossLevel = (if MidTunnelUpper tunnel < LongTunnelLower tunnel
                              then LongTunnelLower tunnel else MidTunnelUpper tunnel);
             s1 = signal\<lparr>StopLoss := stopLossLevel * NewFromFloat (float64_round (1002 / 1000))\<rparr>;
             riskAmount = StopLoss s1 - Price s1
         in s1\<lparr>TakeProfit := Price s1 - riskAmount * NewFromFloat (riskRewardRatio v)\<rparr>))"

definition checkLongSignal ::
  "VegasTunnelStrategy \<Rightarrow> TunnelData \<Rightarrow> TunnelData \<Rightarrow> KlineData \<Rightarrow> string \<Rightarrow> TradingSignal option" where
  "checkLongSignal v tunnel4H tunnel15M kline symbol =
     (if TrendDirection tunnel4H \<noteq> TrendBullish then None
      else if Close kline \<le> MidTunnelLower tunnel4H then None
      else if \<not> isPriceNearTunnel (Close kline) tunnel15M True then None
      else if Close kline \<le> EMA12 tunnel15M then None
      else
        (let signal = \<lparr>sigSymbol = symbol, Type = SignalBuy, Price = Close kline,
                        StopLoss = 0, TakeProfit = 0,
                        Confidence = calculateSignalConfidence tunnel4H tunnel15M True,
                        Reason = ReasonLongEntry, sigTimestamp = Timestamp kline,
                        Timeframe = ''15M''\<rparr>
         in Some (calculateStopLossAndTakeProfit v signal tunnel15M True)))"

definition checkShortSignal ::
  "VegasTunnelStrategy \<Rightarrow> TunnelData \<Rightarrow> TunnelData \<Rightarrow> KlineData \<Rightarrow> string \<Rightarrow> TradingSignal option" where
  "checkShortSignal v tunnel4H tunnel15M kline symbol =
     (if TrendDirection tunnel4H \<noteq> TrendBearish then None
      else if MidTunnelUpper tunnel4H \<le> Close kline then None
      else if \<not> isPriceNearTunnel (Close kline) tunnel15M False then None
      else if EMA12 tunnel15M \<le> Close kline then None
      else
        (let signal = \<lparr>sigSymbol = symbol, Type = SignalSell, Price = Close kline,
                        StopLoss = 0, TakeProfit = 0,
                        Confidence = calculateSignalConfidence tunnel4H tunnel15M False,
                        Reason = ReasonShortEntry, sigTimestamp = Timestamp kline,
                        Timeframe = ''15M''\<rparr>
         in Some (calculateStopLossAndTakeProfit v signal tunnel15M False)))"

text \<open>
  Reading the last element of a slice, \<^verbatim>\<open>s[len(s)-1]\<close>, panics on an empty slice.
\<close>

definition last_elem :: "'a list \<Rightarrow> panic + 'a" where
  "last_elem xs = (if xs = [] then Inl IndexOutOfRange else Inr (last xs))"

text \<open>
  \<^verbatim>\<open>GenerateSignal\<close> returns the strategy after its calls of \<^verbatim>\<open>UpdateKlineData\<close>
  together with its result: a panic, no signal (\<open>None\<close>, the source's \<^verbatim>\<open>nil\<close>) or a signal.
\<close>

definition GenerateSignal ::
  "VegasTunnelStrategy \<Rightarrow> KlineData list \<Rightarrow> VegasTunnelStrategy \<times> (panic + TradingSignal option)" where
  "GenerateSignal v klines =
     (if length klines = 0 then (v, Inr None)
      else
        let symbol = Symbol (klines ! 0);
            v1 = fold (\<lambda>kline s. UpdateKlineData s kline ''15M'') klines v
        in if int (length (kline15MData v1)) < longTunnel2Period v1 then (v1, Inr None)
           else if int (length (kline4HData v1)) < longTunnel2Period v1 then (v1, Inr None)
           else (v1,
             pbind (CalculateTunnelData v1 (kline4HData v1)) (\<lambda>tunnel4H.
               case tunnel4H of None \<Rightarrow> Inr None
               | Some t4 \<Rightarrow>
                 pbind (last_elem t4) (\<lambda>current4H.
                 pbind (CalculateTunnelData v1 (kline15MData v1)) (\<lambda>tunnel15M.
                   case tunnel15M of None \<Rightarrow> Inr None
                   | Some t15 \<Rightarrow>
                     pbind (last_elem t15) (\<lambda>current15M.
                     pbind (last_elem (kline15MData v1)) (\<lambda>currentKline.
                       case checkLongSignal v1 current4H current15M currentKline symbol of
                         Some signal \<Rightarrow> Inr (Some signal)
                       | None \<Rightarrow>
                           (case checkShortSignal v1 current4H current15M currentKline symbol of
                              Some signal \<Rightarrow> Inr (Some signal)
                            | None \<Rightarrow> Inr None))))))))"

section \<open>Exit engine\<close>

definition CheckEMA12Exit :: "VegasTunnelStrategy \<Rightarrow> string \<Rightarrow> bool \<Rightarrow> panic + TradingSignal option" where
  "CheckEMA12Exit v symbol isLong =
     (if length (kline15MData v) < 2 then Inr None
      else
        pbind (CalculateTunnelData v (kline15MData v)) (\<lambda>tunnel15M.
          case tunnel15M of None \<Rightarrow> Inr None
          | Some t15 \<Rightarrow>
            pbind (last_elem (kline15MData v)) (\<lambda>currentKline.
            pbind (last_elem t15) (\<lambda>currentTunnel.
              let shouldExit = (if isLong then Close currentKline < EMA12 currentTunnel
                                else EMA12 currentTunnel < Close currentKline);
                  reason = (if isLong then ReasonLongExit else ReasonShortExit)
              in if \<not> shouldExit then Inr None
                 else Inr (Some \<lparr>sigSymbol = symbol, Type = SignalTakeProfit,
                                  Price = Close currentKline, StopLoss = 0, TakeProfit = 0,
                                  Confidence = float64_round (9 / 10), Reason = reason,
                                  sigTimestamp = Timestamp currentKline,
                                  Timeframe = ''15M''\<rparr>)))))"

section \<open>Vocabulary of the properties\<close>

text \<open>
  The tunnel of the latest bar, when \<^verbatim>\<open>CalculateTunnelData\<close> returns a non-empty slice,
  and the latest value of an EMA series, when \<^verbatim>\<open>CalculateEMA\<close> returns one.
\<close>

definition current_tunnel :: "VegasTunnelStrategy \<Rightarrow> KlineData list \<Rightarrow> TunnelData option" where
  "current_tunnel v klines =
     (case CalculateTunnelData v klines of
        Inr (Some t) \<Rightarrow> (if t = [] then None else Some (last t))
      | _ \<Rightarrow> None)"

definition latest_ema :: "decimal list \<Rightarrow> int \<Rightarrow> decimal option" where
  "latest_ema prices period =
     (case CalculateEMA prices period of
        Inr (Some r) \<Rightarrow> (if r = [] then None else Some (last r))
      | _ \<Rightarrow> None)"

text \<open>
  A configuration with positive periods (\<^verbatim>\<open>ValidateParameters\<close> accepts no other), and a
  history that is long enough for each of the five periods.
\<close>

definition periods_positive :: "VegasTunnelStrategy \<Rightarrow> bool" where
  "periods_positive v =
     (0 < shortEMAPeriod v \<and> 0 < midTunnel1Period v \<and> 0 < midTunnel2Period v
      \<and> 0 < longTunnel1Period v \<and> 0 < longTunnel2Period v)"

definition sufficient_history :: "VegasTunnelStrategy \<Rightarrow> KlineData list \<Rightarrow> bool" where
  "sufficient_history v klines =
     (shortEMAPeriod v \<le> int (length klines) \<and> midTunnel1Period v \<le> int (length klines)
      \<and> midTunnel2Period v \<le> int (length klines) \<and> longTunnel1Period v \<le> int (length klines)
      \<and> longTunnel2Period v \<le> int (length klines))"

text \<open>
  The entry conditions in the words of the specification: the price lies within the 0.2%
  tolerance band of the mid tunnel or of the long tunnel of the fast timeframe; the slow
  trend is bullish (bearish), the close is above the lower (below the upper) bound of the
  slow mid tunnel, the close is in the band and above (below) the fast short EMA.
\<close>

definition within_tolerance_band :: "decimal \<Rightarrow> TunnelData \<Rightarrow> bool" where
  "within_tolerance_band price t =
     ((MidTunnelLower t * (1 - 2 / 1000) \<le> price \<and> price \<le> MidTunnelUpper t * (1 + 2 / 1000))
      \<or> (LongTunnelLower t * (1 - 2 / 1000) \<le> price \<and> price \<le> LongTunnelUpper t * (1 + 2 / 1000)))"

definition long_entry_conditions :: "TunnelData \<Rightarrow> TunnelData \<Rightarrow> decimal \<Rightarrow> bool" where
  "long_entry_conditions slow fast close =
     (TrendDirection slow = TrendBullish \<and> MidTunnelLower slow < close
      \<and> within_tolerance_band close fast \<and> EMA12 fast < close)"

definition short_entry_conditions :: "TunnelData \<Rightarrow> TunnelData \<Rightarrow> decimal \<Rightarrow> bool" where
  "short_entry_conditions slow fast close =
     (TrendDirection slow = TrendBearish \<and> close < MidTunnelUpper slow
      \<and> within_tolerance_band close fast \<and> close < EMA12 fast)"

text \<open>
  The two bonus conditions of the confidence and the score they give, as exact numbers.
\<close>

definition slow_separation :: "TunnelData \<Rightarrow> bool \<Rightarrow> bool" where
  "slow_separation slow isLong =
     (if isLong then LongTunnelUpper slow < MidTunnelLower slow
      else MidTunnelUpper slow < LongTunnelLower slow)"

definition momentum_favorable :: "TunnelData \<Rightarrow> bool \<Rightarrow> bool" where
  "momentum_favorable fast isLong =
     (if isLong then MidTunnelLower fast < EMA12 fast else EMA12 fast < MidTunnelUpper fast)"

definition confidence_score :: "bool \<Rightarrow> bool \<Rightarrow> rat" where
  "confidence_score separated favorable =
     min 1 (6 / 10 + (if separated then 2 / 10 else 0) + (if favorable then 1 / 10 else 0))"

text \<open>Bars for the examples: a bar of one symbol with the given close and open time.\<close>

definition bar :: "decimal \<Rightarrow> int \<Rightarrow> KlineData" where
  "bar c t = \<lparr>Symbol = ''BTCUSDT'', Open = c, High = c, Low = c, Close = c, Volume = 1, Timestamp = t\<rparr>"

text \<open>
  The signal an entry produces, written out field by field: the stop is 0.2% beyond the
  lower of the fast mid-tunnel lower bound and the fast long-tunnel upper bound for a long
  entry, beyond the higher of the fast mid-tunnel upper bound and the fast long-tunnel lower
  bound for a short entry.
\<close>

definition entry_signal :: "VegasTunnelStrategy \<Rightarrow> TunnelData \<Rightarrow> TunnelData \<Rightarrow> KlineData \<Rightarrow> string \<Rightarrow> bool \<Rightarrow> TradingSignal" where
  "entry_signal v slow fast kline symbol isLong =
     (let stop = (if isLong then min (MidTunnelLower fast) (LongTunnelUpper fast) * (998 / 1000)
                  else max (MidTunnelUpper fast) (LongTunnelLower fast) * (1002 / 1000))
      in \<lparr>sigSymbol = symbol, Type = (if isLong then SignalBuy else SignalSell),
          Price = Close kline, StopLoss = stop,
          TakeProfit = (if isLong then Close kline + (Close kline - stop) * NewFromFloat (riskRewardRatio v)
                        else Close kline - (stop - Close kline) * NewFromFloat (riskRewardRatio v)),
          Confidence = float64_round (confidence_score (slow_separation slow isLong)
                                        (momentum_favorable fast isLong)),
          Reason = (if isLong then ReasonLongEntry else ReasonShortEntry),
          sigTimestamp = Timestamp kline, Timeframe = ''15M''\<rparr>)"

text \<open>The trailing exit: its condition and the signal it produces.\<close>

definition exit_condition :: "TunnelData \<Rightarrow> decimal \<Rightarrow> bool \<Rightarrow> bool" where
  "exit_condition fast close isLong = (if isLong then close < EMA12 fast else EMA12 fast < close)"

definition exit_signal :: "KlineData \<Rightarrow> string \<Rightarrow> bool \<Rightarrow> TradingSignal" where
  "exit_signal kline symbol isLong =
     \<lparr>sigSymbol = symbol, Type = SignalTakeProfit, Price = Close kline, StopLoss = 0, TakeProfit = 0,
      Confidence = float64_round (9 / 10),
      Reason = (if isLong then ReasonLongExit else ReasonShortExit),
      sigTimestamp = Timestamp kline, Timeframe = ''15M''\<rparr>"

text \<open>Of two levels, the one nearer to a price (the first on a tie).\<close>

definition nearer_to :: "decimal \<Rightarrow> decimal \<Rightarrow> decimal \<Rightarrow> decimal" where
  "nearer_to price a b = (if \<bar>price - a\<bar> \<le> \<bar>price - b\<bar> then a else b)"

section \<open>Example data\<close>

text \<open>
  A configuration with short periods, which \<^verbatim>\<open>ValidateParameters\<close> accepts, and histories
  of fifteen bars fed through \<^verbatim>\<open>UpdateKlineData\<close>: a slow history that steps up, a fast
  history that pulls back and recovers, and a fast history with a spike followed by a dip.
\<close>

definition bars :: "decimal list \<Rightarrow> KlineData list" where
  "bars closes = map (\<lambda>(c, t). bar c (int t)) (zip closes [0..<length closes])"

definition feed :: "VegasTunnelStrategy \<Rightarrow> string \<Rightarrow> KlineData list \<Rightarrow> VegasTunnelStrategy" where
  "feed v timeframe klines = fold (\<lambda>kline s. UpdateKlineData s kline timeframe) klines v"

definition example_strategy :: VegasTunnelStrategy where
  "example_strategy =
     SetParameters NewVegasTunnelStrategy 3 4 7 9 15 (float64_round (2 / 100)) (float64_round (4 / 100))"

definition slow_closes :: "decimal list" where
  "slow_closes = replicate 14 110 @ [125]"

definition pullback_closes :: "decimal list" where
  "pullback_closes = replicate 13 125 @ [80, 122]"

definition spike_closes :: "decimal list" where
  "spike_closes = replicate 12 120 @ [170, 100, 123]"

definition pullback_state :: VegasTunnelStrategy where
  "pullback_state = feed (feed example_strategy ''4h'' (bars slow_closes)) ''15m'' (bars pullback_closes)"

definition spike_state :: VegasTunnelStrategy where
  "spike_state = feed (feed example_strategy ''4h'' (bars slow_closes)) ''15m'' (bars spike_closes)"

text \<open>The tunnels of the latest bar of the three histories and the two signals emitted.\<close>

definition slow_tunnel :: TunnelData where
  "slow_tunnel = fillTunnel (235 / 2) 116 (455 / 4) 113 111"

definition pullback_tunnel :: TunnelData where
  "pullback_tunnel = fillTunnel (449 / 4) 113 (1853 / 16) (586 / 5) (609 / 5)"

definition spike_tunnel :: TunnelData where
  "spike_tunnel = fillTunnel (491 / 4) (618 / 5) (3969 / 32) (619 / 5) (611 / 5)"

definition pullback_signal :: TradingSignal where
  "pullback_signal =
     \<lparr>sigSymbol = ''BTCUSDT'', Type = SignalBuy, Price = 122, StopLoss = 56387 / 500,
      TakeProfit = 35113 / 250, Confidence = float64_round (8 / 10), Reason = ReasonLongEntry,
      sigTimestamp = 14, Timeframe = ''15M''\<rparr>"

definition spike_signal :: TradingSignal where
  "spike_signal =
     \<lparr>sigSymbol = ''BTCUSDT'', Type = SignalBuy, Price = 123, StopLoss = 154191 / 1250,
      TakeProfit = 76434 / 625, Confidence = float64_round (8 / 10), Reason = ReasonLongEntry,
      sigTimestamp = 14, Timeframe = ''15M''\<rparr>"

section \<open>Evaluating float64 and decimal conversions\<close>

text \<open>
  The equations of the two exponent searches rewrite any term they match, so they are
  used on closed terms only. The definitions with \<open>let\<close> are restated without it, so that
  the simplifier evaluates a closed term from the inside.
\<close>
declare exponent_up.simps [simp del] exponent_down.simps [simp del]

lemma floor_rat_numeral: "\<lfloor>(numeral a :: rat) / numeral b\<rfloor> = numeral a div numeral b"
  using floor_divide_of_int_eq[of "numeral a" "numeral b", where ?'a = rat] by simp

lemma ceiling_rat_numeral: "\<lceil>(numeral a :: rat) / numeral b\<rceil> = - ((- numeral a) div numeral b)"
  using floor_divide_of_int_eq[of "- numeral a" "numeral b", where ?'a = rat]
  by (simp add: ceiling_def)

lemma round_half_even_unfold:
  "round_half_even x =
     (if x - of_int \<lfloor>x\<rfloor> < 1 / 2 then \<lfloor>x\<rfloor>
      else if 1 / 2 < x - of_int \<lfloor>x\<rfloor> then \<lfloor>x\<rfloor> + 1
      else if even \<lfloor>x\<rfloor> then \<lfloor>x\<rfloor> else \<lfloor>x\<rfloor> + 1)"
  by (simp add: round_half_even_def Let_def)

lemma float64_round_unfold:
  "float64_round x =
     (if x = 0 then 0
      else sgn x * of_int (round_half_even (\<bar>x\<bar> * pow2 (52 - max (binary_exponent \<bar>x\<bar>) (- 1022))))
             * pow2 (max (binary_exponent \<bar>x\<bar>) (- 1022) - 52))"
  by (simp add: float64_round_def Let_def)

lemma round_down_digits_unfold:
  "round_down_digits n x =
     of_int \<lfloor>x / pow10 (decimal_exponent x - int n + 1)\<rfloor> * pow10 (decimal_exponent x - int n + 1)"
  by (simp add: round_down_digits_def Let_def)

lemma round_up_digits_unfold:
  "round_up_digits n x =
     of_int \<lceil>x / pow10 (decimal_exponent x - int n + 1)\<rceil> * pow10 (decimal_exponent x - int n + 1)"
  by (simp add: round_up_digits_def Let_def)

lemma round_digits_unfold:
  "round_digits n x =
     of_int (round_half_even (x / pow10 (decimal_exponent x - int n + 1)))
       * pow10 (decimal_exponent x - int n + 1)"
  by (simp add: round_digits_def Let_def)

lemma roundShortest_unfold:
  "roundShortest f n (numeral k) =
     (if float64_round (round_down_digits n f) = f
      then (if float64_round (round_up_digits n f) = f then round_digits n f
            else round_down_digits n f)
      else if float64_round (round_up_digits n f) = f then round_up_digits n f
      else roundShortest f (Suc n) (pred_numeral k))"
  by (simp add: numeral_eq_Suc Let_def)

lemmas float_eval = float64_round_unfold float64_div_def float64_add_def binary_exponent_def
  decimal_exponent_def exponent_up.simps exponent_down.simps pow2_def pow10_def
  round_half_even_unfold round_down_digits_unfold round_up_digits_unfold round_digits_unfold
  roundShortest_unfold NewFromFloat_def floor_rat_numeral ceiling_rat_numeral

lemma ema_alpha_12: "ema_alpha 12 = 15384615384615385 / 10 ^ 17"
  by (simp add: ema_alpha_def float_eval)

lemma ema_alpha_exact:
  "ema_alpha 3 = 1 / 2" "ema_alpha 4 = 2 / 5" "ema_alpha 7 = 1 / 4" "ema_alpha 9 = 1 / 5"
  by (simp_all add: ema_alpha_def float_eval)

lemma DivRound_13_12: "DivRound 13 12 DivisionPrecision = 10833333333333333 / 10 ^ 16"
  by (simp add: DivRound_def DivisionPrecision_def round_half_away_def floor_rat_numeral)

lemma float64_literals:
  "NewFromFloat (float64_round (1 / 500)) = 1 / 500"
  "NewFromFloat (float64_round (499 / 500)) = 499 / 500"
  "NewFromFloat (float64_round (501 / 500)) = 501 / 500"
  "NewFromFloat (float64_round 2) = 2"
  by (simp_all add: float_eval)

lemma float64_confidence_sums:
  "float64_add (float64_round (3 / 5)) (float64_round (1 / 5)) = float64_round (4 / 5)"
  "float64_add (float64_round (3 / 5)) (float64_round (1 / 10)) = float64_round (7 / 10)"
  "float64_add (float64_round (4 / 5)) (float64_round (1 / 10)) = float64_round (9 / 10)"
  "float64_round 1 = 1"
  by (simp_all add: float_eval)

lemma float64_confidence_bounds:
  "float64_round (3 / 5) \<le> 1" "float64_round (7 / 10) \<le> 1"
  "float64_round (4 / 5) \<le> 1" "float64_round (9 / 10) \<le> 1"
  "0 \<le> float64_round (3 / 5)" "0 \<le> float64_round (7 / 10)"
  "0 \<le> float64_round (4 / 5)" "0 \<le> float64_round (9 / 10)"
  by (simp_all add: float_eval)

section \<open>The smoothing engine: iteration and division\<close>


lemma fold_sum_prefix:
  "n \<le> length prices \<Longrightarrow> fold (\<lambda>i s. s + prices ! i) [0..<n] a = a + sum_list (take n prices)"
proof (induction n)
  case 0
  then show ?case by simp
next
  case (Suc n)
  then show ?case by (simp add: take_Suc_conv_app_nth add.assoc)
qed

lemma ema_loop_length: "length (fold (ema_step alpha prices) is r) = length r"
  by (induction "is" arbitrary: r) (simp_all add: ema_step_def)

lemma ema_loop_inv:
  assumes "p \<le> m" "m \<le> length r0"
  shows "(\<forall>j. j < p \<or> m \<le> j \<longrightarrow> fold (ema_step alpha prices) [p..<m] r0 ! j = r0 ! j)
       \<and> (\<forall>i. p \<le> i \<and> i < m \<and> 0 < i \<longrightarrow>
             fold (ema_step alpha prices) [p..<m] r0 ! i
               = prices ! i * alpha + fold (ema_step alpha prices) [p..<m] r0 ! (i - 1) * (1 - alpha))"
  using assms
proof (induction m rule: dec_induct)
  case base
  then show ?case by simp
next
  case (step n)
  let ?r = "fold (ema_step alpha prices) [p..<n] r0"
  have len: "length ?r = length r0" by (rule ema_loop_length)
  have n: "n < length r0" using step.prems by simp
  have ih: "(\<forall>j. j < p \<or> n \<le> j \<longrightarrow> ?r ! j = r0 ! j)"
    "(\<forall>i. p \<le> i \<and> i < n \<and> 0 < i \<longrightarrow> ?r ! i = prices ! i * alpha + ?r ! (i - 1) * (1 - alpha))"
    using step.IH n by simp_all
  have unfold: "fold (ema_step alpha prices) [p..<Suc n] r0 = ?r[n := prices ! n * alpha + ?r ! (n - 1) * (1 - alpha)]"
    using step.hyps by (simp add: ema_step_def)
  show ?case
  proof (intro conjI allI impI)
    fix j assume "j < p \<or> Suc n \<le> j"
    then have "j \<noteq> n" "j < p \<or> n \<le> j" using step.hyps by auto
    then show "fold (ema_step alpha prices) [p..<Suc n] r0 ! j = r0 ! j"
      using ih(1) by (subst unfold) auto
  next
    fix i assume i: "p \<le> i \<and> i < Suc n \<and> 0 < i"
    show "fold (ema_step alpha prices) [p..<Suc n] r0 ! i
        = prices ! i * alpha + fold (ema_step alpha prices) [p..<Suc n] r0 ! (i - 1) * (1 - alpha)"
    proof (cases "i = n")
      case True
      then have "n - 1 \<noteq> n" using i by linarith
      then show ?thesis using n len i True by (subst (1 2) unfold) (simp add: nth_list_update)
    next
      case False
      then have "i < n" "i - 1 \<noteq> n" using i by auto
      then show ?thesis using ih(2) i by (subst (1 2) unfold) simp
    qed
  qed
qed

lemma round_half_away_bound: "\<bar>of_int (round_half_away x) - x\<bar> \<le> 1 / 2"
proof (cases "0 \<le> x")
  case True
  have "\<bar>of_int \<lfloor>x + 1 / 2\<rfloor> - x\<bar> \<le> 1 / 2"
    by linarith
  then show ?thesis using True by (simp only: round_half_away_def if_True)
next
  case False
  have "\<bar>of_int (- \<lfloor>- x + 1 / 2\<rfloor>) - x\<bar> \<le> 1 / 2"
    unfolding of_int_minus by linarith
  then show ?thesis using False by (simp only: round_half_away_def if_False)
qed

lemma round_half_away_of_int: "round_half_away (of_int k) = k"
  unfolding round_half_away_def by (auto; linarith)

lemma DivRound_error:
  "\<bar>DivRound d d2 n - d / d2\<bar> \<le> 1 / (2 * 10 ^ n)"
proof -
  define y where "y = d / d2 * 10 ^ n"
  have pos: "(0::rat) < 10 ^ n" by simp
  have "\<bar>of_int (round_half_away y) - y\<bar> \<le> 1 / 2"
    by (rule round_half_away_bound)
  then have "\<bar>of_int (round_half_away y) - y\<bar> / 10 ^ n \<le> (1 / 2) / 10 ^ n"
    using pos by (rule divide_right_mono[OF _ less_imp_le])
  moreover have "DivRound d d2 n - d / d2 = (of_int (round_half_away y) - y) / 10 ^ n"
    by (simp add: DivRound_def y_def diff_divide_distrib)
  ultimately show ?thesis by (simp add: abs_divide)
qed

lemma DivRound_exact:
  assumes "d / d2 * 10 ^ n = of_int k"
  shows "DivRound d d2 n = d / d2"
proof -
  have "DivRound d d2 n = of_int k / 10 ^ n"
    unfolding DivRound_def assms by (simp add: round_half_away_of_int)
  also have "\<dots> = d / d2" using assms[symmetric] by simp
  finally show ?thesis .
qed


lemma CalculateEMA_short: "int (length prices) < period \<Longrightarrow> CalculateEMA prices period = Inr None"
  by (simp add: CalculateEMA_def)

lemma CalculateEMA_defined:
  assumes "1 \<le> period" "period \<le> int (length prices)"
  shows "CalculateEMA prices period =
     Inr (Some (fold (ema_step (ema_alpha period) prices) [nat period..<length prices]
        ((replicate (length prices) 0)
           [nat (period - 1) := DivRound (sum_list (take (nat period) prices)) (of_int period) DivisionPrecision])))"
proof -
  have "nat period \<le> length prices" using assms by linarith
  then have "fold (\<lambda>i s. s + prices ! i) [0..<nat period] 0 = sum_list (take (nat period) prices)"
    by (simp add: fold_sum_prefix)
  then show ?thesis using assms
    by (simp add: CalculateEMA_def Div_def pbind_def Let_def)
qed

lemma CalculateEMA_nonpositive_period:
  assumes "period \<le> 0"
  shows "\<exists>e. CalculateEMA prices period = Inl e"
  using assms by (auto simp: CalculateEMA_def Div_def pbind_def Let_def)

lemma CalculateEMA_entries:
  assumes "1 \<le> period" "period \<le> int (length prices)"
  shows "\<exists>r. CalculateEMA prices period = Inr (Some r) \<and> length r = length prices
          \<and> (\<forall>i. int i < period - 1 \<longrightarrow> r ! i = 0)
          \<and> r ! nat (period - 1)
              = DivRound (sum_list (take (nat period) prices)) (of_int period) DivisionPrecision
          \<and> (\<forall>i. nat period \<le> i \<and> i < length prices \<longrightarrow>
                r ! i = prices ! i * ema_alpha period + r ! (i - 1) * (1 - ema_alpha period))"
proof -
  define sma where "sma = DivRound (sum_list (take (nat period) prices)) (of_int period) DivisionPrecision"
  define r0 where "r0 = (replicate (length prices) (0::rat))[nat (period - 1) := sma]"
  define r where "r = fold (ema_step (ema_alpha period) prices) [nat period..<length prices] r0"
  have eq: "CalculateEMA prices period = Inr (Some r)"
    using CalculateEMA_defined[OF assms] by (simp add: r_def r0_def sma_def)
  have p: "nat period \<le> length prices" "0 < nat period" "nat (period - 1) < nat period"
    "nat (period - 1) < length prices"
    using assms by linarith+
  have len0: "length r0 = length prices" by (simp add: r0_def)
  have len: "length r = length prices" by (simp add: r_def ema_loop_length len0)
  have inv: "(\<forall>j. j < nat period \<or> length prices \<le> j \<longrightarrow> r ! j = r0 ! j)
       \<and> (\<forall>i. nat period \<le> i \<and> i < length prices \<and> 0 < i \<longrightarrow>
             r ! i = prices ! i * ema_alpha period + r ! (i - 1) * (1 - ema_alpha period))"
    unfolding r_def using ema_loop_inv[of "nat period" "length prices" r0] p(1) len0 by simp
  have zeros: "\<forall>i. int i < period - 1 \<longrightarrow> r ! i = 0"
  proof (intro allI impI)
    fix i assume i: "int i < period - 1"
    then have "i < nat period" "i \<noteq> nat (period - 1)" "i < length prices" using assms by linarith+
    then show "r ! i = 0" using inv by (simp add: r0_def)
  qed
  have seed: "r ! nat (period - 1) = sma"
    using inv p by (simp add: r0_def)
  have rec: "\<forall>i. nat period \<le> i \<and> i < length prices \<longrightarrow>
                r ! i = prices ! i * ema_alpha period + r ! (i - 1) * (1 - ema_alpha period)"
    using inv p(2) by auto
  show ?thesis using eq len zeros seed rec unfolding sma_def by blast
qed

lemma CalculateEMA_Some_inv:
  assumes "CalculateEMA prices p = Inr (Some r)"
  shows "1 \<le> p \<and> p \<le> int (length prices) \<and> length r = length prices"
proof -
  have le: "p \<le> int (length prices)"
    using assms by (auto simp: CalculateEMA_def split: if_splits)
  have pos: "1 \<le> p"
  proof (rule ccontr)
    assume "\<not> 1 \<le> p"
    then have "p \<le> 0" by simp
    from CalculateEMA_nonpositive_period[OF this, of prices] assms show False by auto
  qed
  from CalculateEMA_entries[OF pos le] assms show ?thesis using pos le by auto
qed

lemma CalculateEMA_positive:
  assumes "0 < p"
  shows "(int (length prices) < p \<and> CalculateEMA prices p = Inr None)
       \<or> (p \<le> int (length prices) \<and> (\<exists>r. CalculateEMA prices p = Inr (Some r)))"
proof (cases "int (length prices) < p")
  case True
  then show ?thesis by (simp add: CalculateEMA_short)
next
  case False
  then have "p \<le> int (length prices)" "1 \<le> p" using assms by simp_all
  from CalculateEMA_entries[OF this(2) this(1)] this(1) show ?thesis by blast
qed

lemma latest_ema_Some:
  "CalculateEMA prices p = Inr (Some r) \<Longrightarrow> prices \<noteq> [] \<Longrightarrow>
     latest_ema prices p = Some (r ! (length prices - 1))"
  using CalculateEMA_Some_inv[of prices p r]
  by (auto simp: latest_ema_def last_conv_nth)

section \<open>Properties of the smoothing engine\<close>

text \<open>
  Claim C7, as amended. For every \<open>period\<close> and price sequence: when the sequence is shorter
  than \<open>period\<close>, \<open>CalculateEMA\<close> returns no result (\<open>nil\<close>); when \<open>1 \<le> period \<le> length\<close>, it
  returns a sequence of the length of the input whose first \<open>period - 1\<close> entries are the
  decimal 0, the zero value \<^verbatim>\<open>make\<close> filled them with. The entries are numbers, not
  marked undefined: a decimal has no such mark.
\<close>

theorem CalculateEMA_result_shape:
  "(int (length prices) < period \<longrightarrow> CalculateEMA prices period = Inr None) \<and>
   (1 \<le> period \<and> period \<le> int (length prices) \<longrightarrow>
      (\<exists>r. CalculateEMA prices period = Inr (Some r) \<and> length r = length prices
           \<and> (\<forall>i. int i < period - 1 \<longrightarrow> r ! i = 0)))"
proof (intro conjI impI)
  assume "int (length prices) < period"
  then show "CalculateEMA prices period = Inr None" by (rule CalculateEMA_short)
next
  assume a: "1 \<le> period \<and> period \<le> int (length prices)"
  from CalculateEMA_entries[of period prices] a
  show "\<exists>r. CalculateEMA prices period = Inr (Some r) \<and> length r = length prices
           \<and> (\<forall>i. int i < period - 1 \<longrightarrow> r ! i = 0)"
    by blast
qed

theorem CalculateEMA_result_shape_witness:
  "CalculateEMA [5, 7] 3 = Inr None \<and>
   (\<exists>r. CalculateEMA [5, 7, 9] 2 = Inr (Some r) \<and> length r = 3 \<and> r ! 0 = 0)"
proof -
  have "CalculateEMA [5, 7] 3 = Inr None"
    using CalculateEMA_result_shape[of "[5, 7]" 3] by simp
  moreover have "\<exists>r. CalculateEMA [5, 7, 9] 2 = Inr (Some r) \<and> length r = 3 \<and> r ! 0 = 0"
    using CalculateEMA_result_shape[of "[5, 7, 9]" 2] by auto
  ultimately show ?thesis by simp
qed

text \<open>
  Claim C7 as stated fails. With period 2 on the prices 5, 7 the entry at index 0, before
  the first defined average, is the number 0 (it compares equal to every other decimal 0),
  not a mark of absence; and a period of 0, which is not above the length, gives a panic
  instead of a sequence.
\<close>

theorem CalculateEMA_undefined_entries_counterexample:
  "CalculateEMA [5, 7] 2 = Inr (Some [0, 6]) \<and> CalculateEMA [5, 7] 0 = Inl DivisionByZero"
proof -
  have "DivRound 12 2 DivisionPrecision = 6"
    by (simp add: DivRound_def DivisionPrecision_def round_half_away_def floor_rat_numeral)
  then have "CalculateEMA [5, 7] 2 = Inr (Some [0, 6])"
    by (simp add: CalculateEMA_defined numeral_eq_Suc)
  moreover have "CalculateEMA [5, 7] 0 = Inl DivisionByZero"
    by (simp add: CalculateEMA_def Div_def pbind_def)
  ultimately show ?thesis by simp
qed

text \<open>
  Claim C1, as amended. For a price sequence of length at least \<open>period \<ge> 1\<close>, the entry at
  index \<open>period - 1\<close> is the mean of the first \<open>period\<close> prices rounded to 16 decimal places,
  half away from zero: it is within \<open>5 * 10 ^ -17\<close> of the mean and equal to it whenever the
  mean has at most 16 decimal places. Every entry at an index \<open>i \<ge> period\<close> is exactly
  \<open>prices[i] * alpha + ema[i-1] * (1 - alpha)\<close>, where \<open>alpha\<close> is the decimal that
  \<^verbatim>\<open>NewFromFloat\<close> gives for the float64 quotient \<^verbatim>\<open>2.0 / float64(period+1)\<close>; for the
  period 3 that is \<open>2 / (3 + 1)\<close> itself, for the period 12 it is 0.15384615384615385.
\<close>

theorem CalculateEMA_seed_and_recurrence:
  assumes "1 \<le> period" and "period \<le> int (length prices)"
  shows "\<exists>r. CalculateEMA prices period = Inr (Some r)
     \<and> r ! nat (period - 1)
          = DivRound (sum_list (take (nat period) prices)) (of_int period) DivisionPrecision
     \<and> \<bar>r ! nat (period - 1) - sum_list (take (nat period) prices) / of_int period\<bar>
          \<le> 1 / (2 * 10 ^ 16)
     \<and> ((\<exists>k::int. sum_list (take (nat period) prices) / of_int period * 10 ^ 16 = of_int k)
          \<longrightarrow> r ! nat (period - 1) = sum_list (take (nat period) prices) / of_int period)
     \<and> (\<forall>i. nat period \<le> i \<and> i < length prices \<longrightarrow>
            r ! i = prices ! i * ema_alpha period + r ! (i - 1) * (1 - ema_alpha period))
     \<and> ema_alpha 3 = 2 / (3 + 1) \<and> ema_alpha 12 = 15384615384615385 / 10 ^ 17"
proof -
  obtain r where r: "CalculateEMA prices period = Inr (Some r)"
    "r ! nat (period - 1)
       = DivRound (sum_list (take (nat period) prices)) (of_int period) DivisionPrecision"
    "\<forall>i. nat period \<le> i \<and> i < length prices \<longrightarrow>
        r ! i = prices ! i * ema_alpha period + r ! (i - 1) * (1 - ema_alpha period)"
    using CalculateEMA_entries[OF assms] by blast
  have err: "\<bar>r ! nat (period - 1) - sum_list (take (nat period) prices) / of_int period\<bar>
      \<le> 1 / (2 * 10 ^ 16)"
    unfolding r(2) DivisionPrecision_def by (rule DivRound_error)
  have exact: "(\<exists>k::int. sum_list (take (nat period) prices) / of_int period * 10 ^ 16 = of_int k)
      \<longrightarrow> r ! nat (period - 1) = sum_list (take (nat period) prices) / of_int period"
    unfolding r(2) DivisionPrecision_def using DivRound_exact by blast
  have "ema_alpha 3 = 2 / (3 + 1)" by (simp add: ema_alpha_exact(1))
  then show ?thesis using r err exact ema_alpha_12 by blast
qed

theorem CalculateEMA_seed_and_recurrence_witness:
  "\<exists>r. CalculateEMA [1, 2, 3, 6] 3 = Inr (Some r) \<and> r ! 2 = 2 \<and> r ! 3 = 6 * (1 / 2) + 2 * (1 - 1 / 2)"
proof -
  have sum: "sum_list (take (nat 3) [1, 2, 3, 6 :: rat]) / of_int 3 = 2"
    by (simp add: numeral_eq_Suc)
  have "(1::int) \<le> 3" "(3::int) \<le> int (length [1, 2, 3, 6 :: rat])" by simp_all
  from CalculateEMA_seed_and_recurrence[OF this]
  obtain r where r: "CalculateEMA [1, 2, 3, 6] 3 = Inr (Some r)"
    "(\<exists>k::int. sum_list (take (nat 3) [1, 2, 3, 6 :: rat]) / of_int 3 * 10 ^ 16 = of_int k)
          \<longrightarrow> r ! nat (3 - 1) = sum_list (take (nat 3) [1, 2, 3, 6 :: rat]) / of_int 3"
    "\<forall>i. nat 3 \<le> i \<and> i < length [1, 2, 3, 6 :: rat] \<longrightarrow>
            r ! i = [1, 2, 3, 6] ! i * ema_alpha 3 + r ! (i - 1) * (1 - ema_alpha 3)"
    "ema_alpha 3 = 2 / (3 + 1)"
    by blast
  have "sum_list (take (nat 3) [1, 2, 3, 6 :: rat]) / of_int 3 * 10 ^ 16 = of_int (2 * 10 ^ 16)"
    unfolding sum by simp
  then have "r ! nat (3 - 1) = 2" using r(2) sum by metis
  then have r2: "r ! 2 = 2" by simp
  have "r ! 3 = [1, 2, 3, 6] ! 3 * ema_alpha 3 + r ! (3 - 1) * (1 - ema_alpha 3)"
    using r(3) by simp
  then have "r ! 3 = 6 * (1 / 2) + 2 * (1 - 1 / 2)" using r2 r(4) by simp
  then show ?thesis using r(1) r2 by blast
qed

text \<open>
  Claim C1 as stated fails. With period 12 on thirteen prices whose first twelve sum to 13,
  the entry at index 11 is 1.0833333333333333, not the mean \<open>13 / 12\<close>; and the entry at
  index 12 is computed with \<open>alpha = 0.15384615384615385\<close>, not with \<open>2 / 13\<close>.
\<close>

theorem CalculateEMA_exact_mean_counterexample:
  "CalculateEMA [1, 1, 1, 1, 1, 1, 1, 1, 1, 1, 1, 2, 3] 12 =
     Inr (Some [0, 0, 0, 0, 0, 0, 0, 0, 0, 0, 0, 10833333333333333 / 10 ^ 16,
       3 * (15384615384615385 / 10 ^ 17)
         + 10833333333333333 / 10 ^ 16 * (1 - 15384615384615385 / 10 ^ 17)])
   \<and> (10833333333333333 / 10 ^ 16 :: rat) \<noteq> 13 / 12
   \<and> (3 * (15384615384615385 / 10 ^ 17)
         + 10833333333333333 / 10 ^ 16 * (1 - 15384615384615385 / 10 ^ 17) :: rat)
       \<noteq> 3 * (2 / (12 + 1)) + 10833333333333333 / 10 ^ 16 * (1 - 2 / (12 + 1))"
proof -
  have "CalculateEMA [1, 1, 1, 1, 1, 1, 1, 1, 1, 1, 1, 2, 3] 12 =
     Inr (Some [0, 0, 0, 0, 0, 0, 0, 0, 0, 0, 0, 10833333333333333 / 10 ^ 16,
       3 * (15384615384615385 / 10 ^ 17)
         + 10833333333333333 / 10 ^ 16 * (1 - 15384615384615385 / 10 ^ 17)])"
    by (simp add: CalculateEMA_defined ema_alpha_12 DivRound_13_12 ema_step_def numeral_eq_Suc)
  then show ?thesis by simp
qed

section \<open>Properties of the series store\<close>

lemma UpdateKlineData_other:
  "timeframe \<noteq> ''15m'' \<Longrightarrow> timeframe \<noteq> ''4h'' \<Longrightarrow> UpdateKlineData v kline timeframe = v"
  by (simp add: UpdateKlineData_def)

lemma fold_UpdateKlineData_15M:
  "fold (\<lambda>kline s. UpdateKlineData s kline ''15M'') klines v = v"
  by (induction klines) (simp_all add: UpdateKlineData_def)

lemma GenerateSignal_state: "fst (GenerateSignal v klines) = v"
  by (simp add: GenerateSignal_def fold_UpdateKlineData_15M Let_def)

text \<open>
  Claim C10. For every bar and every timeframe string other than \<open>''15m''\<close> and \<open>''4h''\<close>, in
  particular the upper-case \<open>''15M''\<close> and \<open>''4H''\<close>, \<open>UpdateKlineData\<close> returns the strategy as
  it was, so neither stored series changes; and the calls with \<open>''15M''\<close> that
  \<open>GenerateSignal\<close> makes for its input bars leave the strategy, and with it the 15-minute
  series, as it was.
\<close>

theorem UpdateKlineData_unknown_timeframe_noop:
  "(timeframe \<noteq> ''15m'' \<and> timeframe \<noteq> ''4h'' \<longrightarrow> UpdateKlineData v kline timeframe = v)
   \<and> UpdateKlineData v kline ''15M'' = v \<and> UpdateKlineData v kline ''4H'' = v
   \<and> fst (GenerateSignal v klines) = v
   \<and> kline15MData (fst (GenerateSignal v klines)) = kline15MData v"
  by (simp add: UpdateKlineData_other GenerateSignal_state)

theorem UpdateKlineData_unknown_timeframe_noop_witness:
  "''1h'' \<noteq> ''15m'' \<and> ''1h'' \<noteq> ''4h''
   \<and> UpdateKlineData NewVegasTunnelStrategy (bar 100 1) ''1h'' = NewVegasTunnelStrategy
   \<and> kline15MData (fst (GenerateSignal NewVegasTunnelStrategy [bar 100 1, bar 101 2])) = []"
  using UpdateKlineData_unknown_timeframe_noop[of "''1h''" NewVegasTunnelStrategy "bar 100 1" "[bar 100 1, bar 101 2]"]
  by (simp add: NewVegasTunnelStrategy_def)

text \<open>
  Claim C8, as amended. \<open>UpdateKlineData\<close> with \<open>''15m''\<close> (with \<open>''4h''\<close>) puts the incoming bar
  at the end of the 15-minute (4-hour) series whatever its open time, and then drops the
  oldest bar when the series has more than 1000 (500) bars; the bars that stay keep their
  order, the other series is unchanged, and no bar is rejected.
\<close>

theorem UpdateKlineData_appends:
  "(let v' = UpdateKlineData v kline ''15m'' in
      kline15MData v' = (if length (kline15MData v) < 1000 then kline15MData v @ [kline]
                         else tl (kline15MData v) @ [kline])
      \<and> last (kline15MData v') = kline
      \<and> (length (kline15MData v) \<le> 1000 \<longrightarrow>
            length (kline15MData v') = min (length (kline15MData v) + 1) 1000)
      \<and> kline4HData v' = kline4HData v)
   \<and> (let v' = UpdateKlineData v kline ''4h'' in
      kline4HData v' = (if length (kline4HData v) < 500 then kline4HData v @ [kline]
                        else tl (kline4HData v) @ [kline])
      \<and> last (kline4HData v') = kline
      \<and> (length (kline4HData v) \<le> 500 \<longrightarrow>
            length (kline4HData v') = min (length (kline4HData v) + 1) 500)
      \<and> kline15MData v' = kline15MData v)"
proof -
  have tl_app: "\<And>xs :: KlineData list. xs \<noteq> [] \<Longrightarrow> tl (xs @ [kline]) = tl xs @ [kline]"
    by simp
  have ne1: "\<not> length (kline15MData v) < 1000 \<Longrightarrow> kline15MData v \<noteq> []" by auto
  have ne2: "\<not> length (kline4HData v) < 500 \<Longrightarrow> kline4HData v \<noteq> []" by auto
  show ?thesis
    using ne1 ne2 by (auto simp: UpdateKlineData_def Let_def tl_app)
qed

theorem UpdateKlineData_appends_witness:
  "kline15MData (UpdateKlineData NewVegasTunnelStrategy (bar 100 1) ''15m'') = [bar 100 1]
   \<and> length (kline15MData NewVegasTunnelStrategy) \<le> 1000
   \<and> length (kline15MData (UpdateKlineData NewVegasTunnelStrategy (bar 100 1) ''15m'')) = 1"
  using UpdateKlineData_appends[of NewVegasTunnelStrategy "bar 100 1"]
  by (simp add: NewVegasTunnelStrategy_def Let_def)

text \<open>
  Claim C8 as stated fails: after a bar with open time 2, a bar with open time 1 is
  appended, and so is a second bar with open time 2; the series grows to two bars.
\<close>

theorem UpdateKlineData_out_of_order_counterexample:
  "Timestamp (bar 99 1) \<le> Timestamp (bar 100 2)
   \<and> kline15MData (UpdateKlineData (UpdateKlineData NewVegasTunnelStrategy (bar 100 2) ''15m'')
         (bar 99 1) ''15m'') = [bar 100 2, bar 99 1]
   \<and> kline15MData (UpdateKlineData (UpdateKlineData NewVegasTunnelStrategy (bar 100 2) ''15m'')
         (bar 100 2) ''15m'') = [bar 100 2, bar 100 2]"
  by (simp add: UpdateKlineData_def NewVegasTunnelStrategy_def bar_def)

section \<open>Properties of the tunnel classifier\<close>

lemma fillTunnel_fields:
  "EMA12 (fillTunnel e12 e144 e169 e288 e338) = e12"
  "EMA144 (fillTunnel e12 e144 e169 e288 e338) = e144"
  "EMA169 (fillTunnel e12 e144 e169 e288 e338) = e169"
  "EMA288 (fillTunnel e12 e144 e169 e288 e338) = e288"
  "EMA338 (fillTunnel e12 e144 e169 e288 e338) = e338"
  "MidTunnelUpper (fillTunnel e12 e144 e169 e288 e338) = max e144 e169"
  "MidTunnelLower (fillTunnel e12 e144 e169 e288 e338) = min e144 e169"
  "LongTunnelUpper (fillTunnel e12 e144 e169 e288 e338) = max e288 e338"
  "LongTunnelLower (fillTunnel e12 e144 e169 e288 e338) = min e288 e338"
  by (simp_all add: fillTunnel_def zeroTunnelData_def Let_def max_def min_def)

lemma fillTunnel_direction:
  "TrendDirection (fillTunnel e12 e144 e169 e288 e338)
     = determineTrendDirection (fillTunnel e12 e144 e169 e288 e338)"
  by (simp add: fillTunnel_def zeroTunnelData_def Let_def determineTrendDirection_def)

text \<open>
  Claim C2. For every tunnel whose bounds are the maximum and the minimum of its two EMA
  pairs, the direction is Bullish exactly when the mid-tunnel lower bound is strictly above
  the long-tunnel upper bound, Bearish exactly when the mid-tunnel upper bound is strictly
  below the long-tunnel lower bound, and Sideways otherwise; when compared bounds are equal
  the direction is Sideways, and the two strict inequalities never hold together.
\<close>

theorem determineTrendDirection_classification:
  assumes "MidTunnelUpper t = max (EMA144 t) (EMA169 t)"
    and "MidTunnelLower t = min (EMA144 t) (EMA169 t)"
    and "LongTunnelUpper t = max (EMA288 t) (EMA338 t)"
    and "LongTunnelLower t = min (EMA288 t) (EMA338 t)"
  shows "(determineTrendDirection t = TrendBullish \<longleftrightarrow> LongTunnelUpper t < MidTunnelLower t)
     \<and> (determineTrendDirection t = TrendBearish \<longleftrightarrow> MidTunnelUpper t < LongTunnelLower t)
     \<and> (determineTrendDirection t = TrendSideways \<longleftrightarrow>
          \<not> LongTunnelUpper t < MidTunnelLower t \<and> \<not> MidTunnelUpper t < LongTunnelLower t)
     \<and> (MidTunnelLower t = LongTunnelUpper t \<or> MidTunnelUpper t = LongTunnelLower t
          \<longrightarrow> determineTrendDirection t = TrendSideways)
     \<and> \<not> (LongTunnelUpper t < MidTunnelLower t \<and> MidTunnelUpper t < LongTunnelLower t)"
proof -
  have ord: "MidTunnelLower t \<le> MidTunnelUpper t" "LongTunnelLower t \<le> LongTunnelUpper t"
    using assms by simp_all
  have excl: "\<not> (LongTunnelUpper t < MidTunnelLower t \<and> MidTunnelUpper t < LongTunnelLower t)"
    using ord by linarith
  show ?thesis
    using ord excl by (auto simp: determineTrendDirection_def)
qed

theorem determineTrendDirection_classification_witness:
  "MidTunnelUpper (fillTunnel 10 8 7 5 5) = max (EMA144 (fillTunnel 10 8 7 5 5)) (EMA169 (fillTunnel 10 8 7 5 5))
   \<and> determineTrendDirection (fillTunnel 10 8 7 5 5) = TrendBullish
   \<and> determineTrendDirection (fillTunnel 4 5 5 5 6) = TrendSideways
   \<and> determineTrendDirection (fillTunnel 4 5 6 8 7) = TrendBearish"
proof -
  have a: "determineTrendDirection (fillTunnel 10 8 7 5 5) = TrendBullish"
    using determineTrendDirection_classification[of "fillTunnel 10 8 7 5 5"]
    by (simp add: fillTunnel_fields)
  have b: "determineTrendDirection (fillTunnel 4 5 5 5 6) = TrendSideways"
    using determineTrendDirection_classification[of "fillTunnel 4 5 5 5 6"]
    by (simp add: fillTunnel_fields)
  have c: "determineTrendDirection (fillTunnel 4 5 6 8 7) = TrendBearish"
    using determineTrendDirection_classification[of "fillTunnel 4 5 6 8 7"]
    by (simp add: fillTunnel_fields)
  show ?thesis using a b c by (simp add: fillTunnel_fields)
qed

section \<open>The tunnel of the latest bar\<close>

lemma fold_fill_nth:
  "j < length r0 \<Longrightarrow>
     fold (\<lambda>i td. td[i := f i]) is r0 ! j = (if j \<in> set is then f j else r0 ! j)"
proof (induction "is" arbitrary: r0)
  case Nil
  then show ?case by simp
next
  case (Cons i "is")
  have "j < length (r0[i := f i])" using Cons.prems by simp
  from Cons.IH[OF this] show ?case using Cons.prems by (auto simp: nth_list_update)
qed

lemma fold_fill_length: "length (fold (\<lambda>i td. td[i := f i]) is r0) = length r0"
  by (induction "is" arbitrary: r0) simp_all

lemma CalculateTunnelData_unfold:
  assumes "CalculateEMA (map Close ks) (shortEMAPeriod v) = Inr (Some e12)"
    and "CalculateEMA (map Close ks) (midTunnel1Period v) = Inr (Some e144)"
    and "CalculateEMA (map Close ks) (midTunnel2Period v) = Inr (Some e169)"
    and "CalculateEMA (map Close ks) (longTunnel1Period v) = Inr (Some e288)"
    and "CalculateEMA (map Close ks) (longTunnel2Period v) = Inr (Some e338)"
  shows "CalculateTunnelData v ks = Inr (Some (fold
           (\<lambda>i td. td[i := fillTunnel (e12 ! i) (e144 ! i) (e169 ! i) (e288 ! i) (e338 ! i)])
           [nat (longTunnel2Period v - 1)..<length ks]
           (replicate (length ks) zeroTunnelData)))"
proof -
  have "1 \<le> longTunnel2Period v" "longTunnel2Period v \<le> int (length ks)"
    using CalculateEMA_Some_inv[OF assms(5)] by simp_all
  then show ?thesis using assms
    by (simp add: CalculateTunnelData_def pbind_def Let_def)
qed

lemma CalculateTunnelData_last:
  assumes "CalculateEMA (map Close ks) (shortEMAPeriod v) = Inr (Some e12)"
    and "CalculateEMA (map Close ks) (midTunnel1Period v) = Inr (Some e144)"
    and "CalculateEMA (map Close ks) (midTunnel2Period v) = Inr (Some e169)"
    and "CalculateEMA (map Close ks) (longTunnel1Period v) = Inr (Some e288)"
    and "CalculateEMA (map Close ks) (longTunnel2Period v) = Inr (Some e338)"
  shows "\<exists>ts. CalculateTunnelData v ks = Inr (Some ts) \<and> length ts = length ks \<and> ks \<noteq> []
          \<and> current_tunnel v ks = Some (fillTunnel (e12 ! (length ks - 1)) (e144 ! (length ks - 1))
               (e169 ! (length ks - 1)) (e288 ! (length ks - 1)) (e338 ! (length ks - 1)))"
proof -
  let ?f = "\<lambda>i. fillTunnel (e12 ! i) (e144 ! i) (e169 ! i) (e288 ! i) (e338 ! i)"
  let ?tl = "fold (\<lambda>i td. td[i := ?f i]) [nat (longTunnel2Period v - 1)..<length ks]
           (replicate (length ks) zeroTunnelData)"
  have eq: "CalculateTunnelData v ks = Inr (Some ?tl)"
    by (rule CalculateTunnelData_unfold[OF assms])
  have p: "1 \<le> longTunnel2Period v" "longTunnel2Period v \<le> int (length ks)"
    using CalculateEMA_Some_inv[OF assms(5)] by simp_all
  then have ne: "ks \<noteq> []" by auto
  have len: "length ?tl = length ks" by (simp add: fold_fill_length)
  have idx: "length ks - 1 < length (replicate (length ks) zeroTunnelData)" using ne by simp
  have mem: "length ks - 1 \<in> set [nat (longTunnel2Period v - 1)..<length ks]"
    using p ne by auto
  have "?tl ! (length ks - 1) = ?f (length ks - 1)"
    using fold_fill_nth[OF idx, of ?f "[nat (longTunnel2Period v - 1)..<length ks]"] mem by simp
  moreover have "?tl \<noteq> []" using len ne by auto
  ultimately have "last ?tl = ?f (length ks - 1)" using len by (simp add: last_conv_nth)
  then have "current_tunnel v ks = Some (?f (length ks - 1))"
    using eq \<open>?tl \<noteq> []\<close> by (simp add: current_tunnel_def)
  then show ?thesis using eq len ne by blast
qed

lemma sufficient_positive_emas:
  assumes "periods_positive v" "sufficient_history v ks"
  shows "\<exists>e12 e144 e169 e288 e338.
      CalculateEMA (map Close ks) (shortEMAPeriod v) = Inr (Some e12)
    \<and> CalculateEMA (map Close ks) (midTunnel1Period v) = Inr (Some e144)
    \<and> CalculateEMA (map Close ks) (midTunnel2Period v) = Inr (Some e169)
    \<and> CalculateEMA (map Close ks) (longTunnel1Period v) = Inr (Some e288)
    \<and> CalculateEMA (map Close ks) (longTunnel2Period v) = Inr (Some e338)"
proof -
  have "\<And>p. 0 < p \<Longrightarrow> p \<le> int (length ks) \<Longrightarrow> \<exists>r. CalculateEMA (map Close ks) p = Inr (Some r)"
    using CalculateEMA_positive[of _ "map Close ks"] by force
  then show ?thesis using assms unfolding periods_positive_def sufficient_history_def by metis
qed

lemma pbind_Inr_inv: "pbind m f = Inr y \<Longrightarrow> \<exists>x. m = Inr x \<and> f x = Inr y"
  by (cases m) (simp_all add: pbind_def)

lemma CalculateTunnelData_Inr:
  assumes "\<not> int (length ks) < longTunnel2Period v"
    and "CalculateEMA (map Close ks) (shortEMAPeriod v) = Inr o1"
    and "CalculateEMA (map Close ks) (midTunnel1Period v) = Inr o2"
    and "CalculateEMA (map Close ks) (midTunnel2Period v) = Inr o3"
    and "CalculateEMA (map Close ks) (longTunnel1Period v) = Inr o4"
    and "CalculateEMA (map Close ks) (longTunnel2Period v) = Inr o5"
  shows "CalculateTunnelData v ks =
     (case (o1, o2, o3, o4, o5) of
        (Some e12, Some e144, Some e169, Some e288, Some e338) \<Rightarrow>
          if longTunnel2Period v - 1 < 0 then Inl IndexOutOfRange
          else Inr (Some (fold
                 (\<lambda>i td. td[i := fillTunnel (e12 ! i) (e144 ! i) (e169 ! i) (e288 ! i) (e338 ! i)])
                 [nat (longTunnel2Period v - 1)..<length ks]
                 (replicate (length ks) zeroTunnelData)))
      | _ \<Rightarrow> Inr None)"
  using assms by (simp add: CalculateTunnelData_def pbind_def Let_def)

lemma CalculateTunnelData_insufficient:
  assumes "periods_positive v" "\<not> sufficient_history v ks"
  shows "CalculateTunnelData v ks = Inr None"
proof (cases "int (length ks) < longTunnel2Period v")
  case True
  then show ?thesis by (simp add: CalculateTunnelData_def)
next
  case False
  have each: "\<And>p. 0 < p \<Longrightarrow> \<exists>r. CalculateEMA (map Close ks) p = Inr r \<and> (int (length ks) < p \<longrightarrow> r = None)"
    using CalculateEMA_positive[of _ "map Close ks"] by force
  have pos: "0 < shortEMAPeriod v" "0 < midTunnel1Period v" "0 < midTunnel2Period v"
    "0 < longTunnel1Period v" "0 < longTunnel2Period v"
    using assms(1) by (simp_all add: periods_positive_def)
  obtain o1 where o1: "CalculateEMA (map Close ks) (shortEMAPeriod v) = Inr o1"
    "int (length ks) < shortEMAPeriod v \<longrightarrow> o1 = None" using each[OF pos(1)] by blast
  obtain o2 where o2: "CalculateEMA (map Close ks) (midTunnel1Period v) = Inr o2"
    "int (length ks) < midTunnel1Period v \<longrightarrow> o2 = None" using each[OF pos(2)] by blast
  obtain o3 where o3: "CalculateEMA (map Close ks) (midTunnel2Period v) = Inr o3"
    "int (length ks) < midTunnel2Period v \<longrightarrow> o3 = None" using each[OF pos(3)] by blast
  obtain o4 where o4: "CalculateEMA (map Close ks) (longTunnel1Period v) = Inr o4"
    "int (length ks) < longTunnel1Period v \<longrightarrow> o4 = None" using each[OF pos(4)] by blast
  obtain o5 where o5: "CalculateEMA (map Close ks) (longTunnel2Period v) = Inr o5"
    using each[OF pos(5)] by blast
  have "o1 = None \<or> o2 = None \<or> o3 = None \<or> o4 = None"
    using assms(2) False o1(2) o2(2) o3(2) o4(2)
    unfolding sufficient_history_def by linarith
  then have "(case (o1, o2, o3, o4, o5) of
        (Some e12, Some e144, Some e169, Some e288, Some e338) \<Rightarrow>
          if longTunnel2Period v - 1 < 0 then Inl IndexOutOfRange
          else Inr (Some (fold
                 (\<lambda>i td. td[i := fillTunnel (e12 ! i) (e144 ! i) (e169 ! i) (e288 ! i) (e338 ! i)])
                 [nat (longTunnel2Period v - 1)..<length ks]
                 (replicate (length ks) zeroTunnelData)))
      | _ \<Rightarrow> Inr None) = Inr None"
    by (cases o1; cases o2; cases o3; cases o4; cases o5) simp_all
  then show ?thesis
    using CalculateTunnelData_Inr[OF False o1(1) o2(1) o3(1) o4(1) o5] by simp
qed

lemma CalculateTunnelData_Some_inv:
  assumes "CalculateTunnelData v ks = Inr (Some ts)"
  shows "\<exists>e12 e144 e169 e288 e338.
      CalculateEMA (map Close ks) (shortEMAPeriod v) = Inr (Some e12)
    \<and> CalculateEMA (map Close ks) (midTunnel1Period v) = Inr (Some e144)
    \<and> CalculateEMA (map Close ks) (midTunnel2Period v) = Inr (Some e169)
    \<and> CalculateEMA (map Close ks) (longTunnel1Period v) = Inr (Some e288)
    \<and> CalculateEMA (map Close ks) (longTunnel2Period v) = Inr (Some e338)"
proof -
  have long: "\<not> int (length ks) < longTunnel2Period v"
    using assms by (auto simp: CalculateTunnelData_def)
  let ?p = "map Close ks"
  have body: "pbind (CalculateEMA ?p (shortEMAPeriod v)) (\<lambda>ema12.
           pbind (CalculateEMA ?p (midTunnel1Period v)) (\<lambda>ema144.
           pbind (CalculateEMA ?p (midTunnel2Period v)) (\<lambda>ema169.
           pbind (CalculateEMA ?p (longTunnel1Period v)) (\<lambda>ema288.
           pbind (CalculateEMA ?p (longTunnel2Period v)) (\<lambda>ema338.
             case (ema12, ema144, ema169, ema288, ema338) of
               (Some e12, Some e144, Some e169, Some e288, Some e338) \<Rightarrow>
                 if longTunnel2Period v - 1 < 0 then Inl IndexOutOfRange
                 else Inr (Some (fold
                        (\<lambda>i td. td[i := fillTunnel (e12 ! i) (e144 ! i) (e169 ! i) (e288 ! i) (e338 ! i)])
                        [nat (longTunnel2Period v - 1)..<length ks]
                        (replicate (length ks) zeroTunnelData)))
             | _ \<Rightarrow> Inr None))))) = Inr (Some ts)"
    using assms long by (simp add: CalculateTunnelData_def Let_def)
  from pbind_Inr_inv[OF body] obtain o1 where o1: "CalculateEMA ?p (shortEMAPeriod v) = Inr o1"
    and b1: "pbind (CalculateEMA ?p (midTunnel1Period v)) (\<lambda>ema144.
           pbind (CalculateEMA ?p (midTunnel2Period v)) (\<lambda>ema169.
           pbind (CalculateEMA ?p (longTunnel1Period v)) (\<lambda>ema288.
           pbind (CalculateEMA ?p (longTunnel2Period v)) (\<lambda>ema338.
             case (o1, ema144, ema169, ema288, ema338) of
               (Some e12, Some e144, Some e169, Some e288, Some e338) \<Rightarrow>
                 if longTunnel2Period v - 1 < 0 then Inl IndexOutOfRange
                 else Inr (Some (fold
                        (\<lambda>i td. td[i := fillTunnel (e12 ! i) (e144 ! i) (e169 ! i) (e288 ! i) (e338 ! i)])
                        [nat (longTunnel2Period v - 1)..<length ks]
                        (replicate (length ks) zeroTunnelData)))
             | _ \<Rightarrow> Inr None)))) = Inr (Some ts)"
    by blast
  from pbind_Inr_inv[OF b1] obtain o2 where o2: "CalculateEMA ?p (midTunnel1Period v) = Inr o2"
    and b2: "pbind (CalculateEMA ?p (midTunnel2Period v)) (\<lambda>ema169.
           pbind (CalculateEMA ?p (longTunnel1Period v)) (\<lambda>ema288.
           pbind (CalculateEMA ?p (longTunnel2Period v)) (\<lambda>ema338.
             case (o1, o2, ema169, ema288, ema338) of
               (Some e12, Some e144, Some e169, Some e288, Some e338) \<Rightarrow>
                 if longTunnel2Period v - 1 < 0 then Inl IndexOutOfRange
                 else Inr (Some (fold
                        (\<lambda>i td. td[i := fillTunnel (e12 ! i) (e144 ! i) (e169 ! i) (e288 ! i) (e338 ! i)])
                        [nat (longTunnel2Period v - 1)..<length ks]
                        (replicate (length ks) zeroTunnelData)))
             | _ \<Rightarrow> Inr None))) = Inr (Some ts)"
    by blast
  from pbind_Inr_inv[OF b2] obtain o3 where o3: "CalculateEMA ?p (midTunnel2Period v) = Inr o3"
    and b3: "pbind (CalculateEMA ?p (longTunnel1Period v)) (\<lambda>ema288.
           pbind (CalculateEMA ?p (longTunnel2Period v)) (\<lambda>ema338.
             case (o1, o2, o3, ema288, ema338) of
               (Some e12, Some e144, Some e169, Some e288, Some e338) \<Rightarrow>
                 if longTunnel2Period v - 1 < 0 then Inl IndexOutOfRange
                 else Inr (Some (fold
                        (\<lambda>i td. td[i := fillTunnel (e12 ! i) (e144 ! i) (e169 ! i) (e288 ! i) (e338 ! i)])
                        [nat (longTunnel2Period v - 1)..<length ks]
                        (replicate (length ks) zeroTunnelData)))
             | _ \<Rightarrow> Inr None)) = Inr (Some ts)"
    by blast
  from pbind_Inr_inv[OF b3] obtain o4 where o4: "CalculateEMA ?p (longTunnel1Period v) = Inr o4"
    and b4: "pbind (CalculateEMA ?p (longTunnel2Period v)) (\<lambda>ema338.
             case (o1, o2, o3, o4, ema338) of
               (Some e12, Some e144, Some e169, Some e288, Some e338) \<Rightarrow>
                 if longTunnel2Period v - 1 < 0 then Inl IndexOutOfRange
                 else Inr (Some (fold
                        (\<lambda>i td. td[i := fillTunnel (e12 ! i) (e144 ! i) (e169 ! i) (e288 ! i) (e338 ! i)])
                        [nat (longTunnel2Period v - 1)..<length ks]
                        (replicate (length ks) zeroTunnelData)))
             | _ \<Rightarrow> Inr None) = Inr (Some ts)"
    by blast
  from pbind_Inr_inv[OF b4] obtain o5 where o5: "CalculateEMA ?p (longTunnel2Period v) = Inr o5"
    and b5: "(case (o1, o2, o3, o4, o5) of
               (Some e12, Some e144, Some e169, Some e288, Some e338) \<Rightarrow>
                 if longTunnel2Period v - 1 < 0 then Inl IndexOutOfRange
                 else Inr (Some (fold
                        (\<lambda>i td. td[i := fillTunnel (e12 ! i) (e144 ! i) (e169 ! i) (e288 ! i) (e338 ! i)])
                        [nat (longTunnel2Period v - 1)..<length ks]
                        (replicate (length ks) zeroTunnelData)))
             | _ \<Rightarrow> Inr None) = Inr (Some ts)"
    by blast
  have "o1 \<noteq> None \<and> o2 \<noteq> None \<and> o3 \<noteq> None \<and> o4 \<noteq> None \<and> o5 \<noteq> None"
    using b5 by (cases o1; cases o2; cases o3; cases o4; cases o5) simp_all
  then show ?thesis using o1 o2 o3 o4 o5 by auto
qed

lemma current_tunnel_Some_inv:
  assumes "current_tunnel v ks = Some c"
  shows "periods_positive v \<and> sufficient_history v ks \<and> ks \<noteq> []
     \<and> (\<exists>e12 e144 e169 e288 e338.
           latest_ema (map Close ks) (shortEMAPeriod v) = Some e12
         \<and> latest_ema (map Close ks) (midTunnel1Period v) = Some e144
         \<and> latest_ema (map Close ks) (midTunnel2Period v) = Some e169
         \<and> latest_ema (map Close ks) (longTunnel1Period v) = Some e288
         \<and> latest_ema (map Close ks) (longTunnel2Period v) = Some e338
         \<and> c = fillTunnel e12 e144 e169 e288 e338)"
proof -
  obtain ts where ts: "CalculateTunnelData v ks = Inr (Some ts)"
    using assms by (auto simp: current_tunnel_def split: sum.splits option.splits if_splits)
  from CalculateTunnelData_Some_inv[OF ts] obtain e12 e144 e169 e288 e338 where
    e: "CalculateEMA (map Close ks) (shortEMAPeriod v) = Inr (Some e12)"
       "CalculateEMA (map Close ks) (midTunnel1Period v) = Inr (Some e144)"
       "CalculateEMA (map Close ks) (midTunnel2Period v) = Inr (Some e169)"
       "CalculateEMA (map Close ks) (longTunnel1Period v) = Inr (Some e288)"
       "CalculateEMA (map Close ks) (longTunnel2Period v) = Inr (Some e338)"
    by blast
  from CalculateTunnelData_last[OF e] have ne: "ks \<noteq> []"
    and c: "c = fillTunnel (e12 ! (length ks - 1)) (e144 ! (length ks - 1))
               (e169 ! (length ks - 1)) (e288 ! (length ks - 1)) (e338 ! (length ks - 1))"
    using assms by auto
  have pne: "map Close ks \<noteq> []" using ne by simp
  have inv: "periods_positive v" "sufficient_history v ks"
    using CalculateEMA_Some_inv[OF e(1)] CalculateEMA_Some_inv[OF e(2)]
      CalculateEMA_Some_inv[OF e(3)] CalculateEMA_Some_inv[OF e(4)] CalculateEMA_Some_inv[OF e(5)]
    by (simp_all add: periods_positive_def sufficient_history_def)
  show ?thesis
    using inv ne c latest_ema_Some[OF e(1) pne] latest_ema_Some[OF e(2) pne]
      latest_ema_Some[OF e(3) pne] latest_ema_Some[OF e(4) pne] latest_ema_Some[OF e(5) pne]
    by simp
qed

lemma current_tunnel_sufficient:
  assumes "periods_positive v" "sufficient_history v ks"
  shows "\<exists>c. current_tunnel v ks = Some c"
proof -
  from sufficient_positive_emas[OF assms] obtain e12 e144 e169 e288 e338 where
    e: "CalculateEMA (map Close ks) (shortEMAPeriod v) = Inr (Some e12)"
       "CalculateEMA (map Close ks) (midTunnel1Period v) = Inr (Some e144)"
       "CalculateEMA (map Close ks) (midTunnel2Period v) = Inr (Some e169)"
       "CalculateEMA (map Close ks) (longTunnel1Period v) = Inr (Some e288)"
       "CalculateEMA (map Close ks) (longTunnel2Period v) = Inr (Some e338)"
    by blast
  from CalculateTunnelData_last[OF e] show ?thesis by blast
qed

lemma current_tunnel_insufficient:
  assumes "periods_positive v" "\<not> sufficient_history v ks"
  shows "current_tunnel v ks = None"
  using CalculateTunnelData_insufficient[OF assms] by (simp add: current_tunnel_def)

lemma CalculateTunnelData_by_current:
  assumes "periods_positive v"
  shows "(current_tunnel v ks = None \<and> CalculateTunnelData v ks = Inr None)
       \<or> (\<exists>c ts. current_tunnel v ks = Some c \<and> CalculateTunnelData v ks = Inr (Some ts)
             \<and> ts \<noteq> [] \<and> last ts = c)"
proof (cases "sufficient_history v ks")
  case False
  then show ?thesis
    using CalculateTunnelData_insufficient[OF assms] current_tunnel_insufficient[OF assms] by simp
next
  case True
  from sufficient_positive_emas[OF assms True] obtain e12 e144 e169 e288 e338 where
    e: "CalculateEMA (map Close ks) (shortEMAPeriod v) = Inr (Some e12)"
       "CalculateEMA (map Close ks) (midTunnel1Period v) = Inr (Some e144)"
       "CalculateEMA (map Close ks) (midTunnel2Period v) = Inr (Some e169)"
       "CalculateEMA (map Close ks) (longTunnel1Period v) = Inr (Some e288)"
       "CalculateEMA (map Close ks) (longTunnel2Period v) = Inr (Some e338)"
    by blast
  from CalculateTunnelData_last[OF e] obtain ts c where
    "CalculateTunnelData v ks = Inr (Some ts)" "length ts = length ks" "ks \<noteq> []"
    "current_tunnel v ks = Some c"
    by blast
  moreover from this have "ts \<noteq> []" by auto
  ultimately show ?thesis by (auto simp: current_tunnel_def)
qed

lemma current_tunnel_latest:
  assumes "periods_positive v" "sufficient_history v ks"
    and "latest_ema (map Close ks) (shortEMAPeriod v) = Some e12"
    and "latest_ema (map Close ks) (midTunnel1Period v) = Some e144"
    and "latest_ema (map Close ks) (midTunnel2Period v) = Some e169"
    and "latest_ema (map Close ks) (longTunnel1Period v) = Some e288"
    and "latest_ema (map Close ks) (longTunnel2Period v) = Some e338"
  shows "current_tunnel v ks = Some (fillTunnel e12 e144 e169 e288 e338)"
proof -
  obtain c where c: "current_tunnel v ks = Some c"
    using current_tunnel_sufficient[OF assms(1,2)] by blast
  from current_tunnel_Some_inv[OF c] assms(3-7) show ?thesis using c by auto
qed

lemma current_tunnel_EMA12:
  assumes "current_tunnel v ks = Some fast"
  shows "latest_ema (map Close ks) (shortEMAPeriod v) = Some (EMA12 fast)"
  using current_tunnel_Some_inv[OF assms] by (auto simp: fillTunnel_fields)

section \<open>The signal engine as a function of the latest tunnels\<close>

lemma calculateSignalConfidence_score:
  "calculateSignalConfidence slow fast isLong
     = float64_round (confidence_score (slow_separation slow isLong) (momentum_favorable fast isLong))"
  by (cases isLong; cases "slow_separation slow isLong"; cases "momentum_favorable fast isLong")
     (simp_all add: calculateSignalConfidence_def confidence_score_def slow_separation_def
        momentum_favorable_def Let_def float64_confidence_sums float64_confidence_bounds min_def)

lemma float64_confidence_score_range:
  "0 \<le> float64_round (confidence_score a b) \<and> float64_round (confidence_score a b) \<le> 1"
  by (cases a; cases b) (simp_all add: confidence_score_def float64_confidence_bounds)

lemma isPriceNearTunnel_band: "isPriceNearTunnel price t isLong = within_tolerance_band price t"
  by (auto simp: isPriceNearTunnel_def within_tolerance_band_def float64_literals Let_def)

lemma checkLongSignal_eq:
  "checkLongSignal v slow fast kline symbol =
     (if long_entry_conditions slow fast (Close kline)
      then Some (entry_signal v slow fast kline symbol True) else None)"
  by (auto simp: checkLongSignal_def long_entry_conditions_def isPriceNearTunnel_band
      entry_signal_def calculateStopLossAndTakeProfit_def calculateSignalConfidence_score
      float64_literals Let_def min_def)

lemma checkShortSignal_eq:
  "checkShortSignal v slow fast kline symbol =
     (if short_entry_conditions slow fast (Close kline)
      then Some (entry_signal v slow fast kline symbol False) else None)"
  by (auto simp: checkShortSignal_def short_entry_conditions_def isPriceNearTunnel_band
      entry_signal_def calculateStopLossAndTakeProfit_def calculateSignalConfidence_score
      float64_literals Let_def max_def)

lemma last_elem_ne: "xs \<noteq> [] \<Longrightarrow> last_elem xs = Inr (last xs)"
  by (simp add: last_elem_def)

lemma GenerateSignal_positive:
  assumes "periods_positive v"
  shows "GenerateSignal v klines =
     (v, Inr (if klines = [] then None
              else case current_tunnel v (kline4HData v) of None \<Rightarrow> None
              | Some slow \<Rightarrow>
                  (case current_tunnel v (kline15MData v) of None \<Rightarrow> None
                   | Some fast \<Rightarrow>
                       if long_entry_conditions slow fast (Close (last (kline15MData v)))
                       then Some (entry_signal v slow fast (last (kline15MData v)) (Symbol (hd klines)) True)
                       else if short_entry_conditions slow fast (Close (last (kline15MData v)))
                       then Some (entry_signal v slow fast (last (kline15MData v)) (Symbol (hd klines)) False)
                       else None)))"
proof (cases "klines = []")
  case True
  then show ?thesis by (simp add: GenerateSignal_def)
next
  case ne: False
  have hd: "klines ! 0 = hd klines" using ne by (simp add: hd_conv_nth)
  have long2: "0 < longTunnel2Period v" using assms by (simp add: periods_positive_def)
  consider (a) "current_tunnel v (kline4HData v) = None" "CalculateTunnelData v (kline4HData v) = Inr None"
    | (b) slow ts where "current_tunnel v (kline4HData v) = Some slow"
        "CalculateTunnelData v (kline4HData v) = Inr (Some ts)" "ts \<noteq> []" "last ts = slow"
    using CalculateTunnelData_by_current[OF assms, of "kline4HData v"] by (elim disjE exE conjE) auto
  then show ?thesis
  proof cases
    case a
    then show ?thesis
      using ne
      by (simp add: GenerateSignal_def fold_UpdateKlineData_15M Let_def pbind_def)
  next
    case b
    consider (c) "current_tunnel v (kline15MData v) = None" "CalculateTunnelData v (kline15MData v) = Inr None"
      | (d) fast ts' where "current_tunnel v (kline15MData v) = Some fast"
          "CalculateTunnelData v (kline15MData v) = Inr (Some ts')" "ts' \<noteq> []" "last ts' = fast"
      using CalculateTunnelData_by_current[OF assms, of "kline15MData v"] by (elim disjE exE conjE) auto
    then show ?thesis
    proof cases
      case c
      then show ?thesis
        using ne b
        by (simp add: GenerateSignal_def fold_UpdateKlineData_15M Let_def pbind_def last_elem_ne)
    next
      case d
      have suff4: "sufficient_history v (kline4HData v)" "kline4HData v \<noteq> []"
        using current_tunnel_Some_inv[OF b(1)] by simp_all
      have suff15: "sufficient_history v (kline15MData v)" "kline15MData v \<noteq> []"
        using current_tunnel_Some_inv[OF d(1)] by simp_all
      have len: "\<not> int (length (kline15MData v)) < longTunnel2Period v"
        "\<not> int (length (kline4HData v)) < longTunnel2Period v"
        using suff4 suff15 by (simp_all add: sufficient_history_def)
      show ?thesis
        using ne b d len suff15(2)
        by (simp add: GenerateSignal_def fold_UpdateKlineData_15M Let_def pbind_def last_elem_ne
            checkLongSignal_eq checkShortSignal_eq hd)
    qed
  qed
qed

lemma GenerateSignal_Some_inv:
  assumes "GenerateSignal v klines = (v', Inr (Some s))"
  shows "v' = v \<and> klines \<noteq> [] \<and> kline15MData v \<noteq> []
     \<and> (\<exists>slow fast. current_tunnel v (kline4HData v) = Some slow
           \<and> current_tunnel v (kline15MData v) = Some fast
           \<and> (long_entry_conditions slow fast (Close (last (kline15MData v)))
                \<and> s = entry_signal v slow fast (last (kline15MData v)) (Symbol (hd klines)) True
              \<or> \<not> long_entry_conditions slow fast (Close (last (kline15MData v)))
                \<and> short_entry_conditions slow fast (Close (last (kline15MData v)))
                \<and> s = entry_signal v slow fast (last (kline15MData v)) (Symbol (hd klines)) False))"
proof -
  have v': "v' = v" using assms GenerateSignal_state[of v klines] by simp
  have ne: "klines \<noteq> []" using assms by (auto simp: GenerateSignal_def)
  have hd: "klines ! 0 = hd klines" using ne by (simp add: hd_conv_nth)
  let ?body = "pbind (CalculateTunnelData v (kline4HData v)) (\<lambda>tunnel4H.
               case tunnel4H of None \<Rightarrow> Inr None
               | Some t4 \<Rightarrow>
                 pbind (last_elem t4) (\<lambda>current4H.
                 pbind (CalculateTunnelData v (kline15MData v)) (\<lambda>tunnel15M.
                   case tunnel15M of None \<Rightarrow> Inr None
                   | Some t15 \<Rightarrow>
                     pbind (last_elem t15) (\<lambda>current15M.
                     pbind (last_elem (kline15MData v)) (\<lambda>currentKline.
                       case checkLongSignal v current4H current15M currentKline (Symbol (hd klines)) of
                         Some signal \<Rightarrow> Inr (Some signal)
                       | None \<Rightarrow>
                           (case checkShortSignal v current4H current15M currentKline (Symbol (hd klines)) of
                              Some signal \<Rightarrow> Inr (Some signal)
                            | None \<Rightarrow> Inr None))))))"
  have body: "?body = Inr (Some s)"
    using assms ne
    by (auto simp: GenerateSignal_def fold_UpdateKlineData_15M Let_def hd split: if_splits)
  from pbind_Inr_inv[OF body] obtain o4 where o4: "CalculateTunnelData v (kline4HData v) = Inr o4"
    and b1: "(case o4 of None \<Rightarrow> Inr None
               | Some t4 \<Rightarrow>
                 pbind (last_elem t4) (\<lambda>current4H.
                 pbind (CalculateTunnelData v (kline15MData v)) (\<lambda>tunnel15M.
                   case tunnel15M of None \<Rightarrow> Inr None
                   | Some t15 \<Rightarrow>
                     pbind (last_elem t15) (\<lambda>current15M.
                     pbind (last_elem (kline15MData v)) (\<lambda>currentKline.
                       case checkLongSignal v current4H current15M currentKline (Symbol (hd klines)) of
                         Some signal \<Rightarrow> Inr (Some signal)
                       | None \<Rightarrow>
                           (case checkShortSignal v current4H current15M currentKline (Symbol (hd klines)) of
                              Some signal \<Rightarrow> Inr (Some signal)
                            | None \<Rightarrow> Inr None)))))) = Inr (Some s)"
    by (elim exE conjE) (rule that; assumption)
  then obtain t4 where t4: "o4 = Some t4" by (cases o4) simp_all
  from b1[unfolded t4, simplified] have b2: "pbind (last_elem t4) (\<lambda>current4H.
                 pbind (CalculateTunnelData v (kline15MData v)) (\<lambda>tunnel15M.
                   case tunnel15M of None \<Rightarrow> Inr None
                   | Some t15 \<Rightarrow>
                     pbind (last_elem t15) (\<lambda>current15M.
                     pbind (last_elem (kline15MData v)) (\<lambda>currentKline.
                       case checkLongSignal v current4H current15M currentKline (Symbol (hd klines)) of
                         Some signal \<Rightarrow> Inr (Some signal)
                       | None \<Rightarrow>
                           (case checkShortSignal v current4H current15M currentKline (Symbol (hd klines)) of
                              Some signal \<Rightarrow> Inr (Some signal)
                            | None \<Rightarrow> Inr None))))) = Inr (Some s)" .
  from pbind_Inr_inv[OF b2] obtain slow where slow: "last_elem t4 = Inr slow"
    and b3: "pbind (CalculateTunnelData v (kline15MData v)) (\<lambda>tunnel15M.
                   case tunnel15M of None \<Rightarrow> Inr None
                   | Some t15 \<Rightarrow>
                     pbind (last_elem t15) (\<lambda>current15M.
                     pbind (last_elem (kline15MData v)) (\<lambda>currentKline.
                       case checkLongSignal v slow current15M currentKline (Symbol (hd klines)) of
                         Some signal \<Rightarrow> Inr (Some signal)
                       | None \<Rightarrow>
                           (case checkShortSignal v slow current15M currentKline (Symbol (hd klines)) of
                              Some signal \<Rightarrow> Inr (Some signal)
                            | None \<Rightarrow> Inr None)))) = Inr (Some s)"
    by (elim exE conjE) (rule that; assumption)
  from pbind_Inr_inv[OF b3] obtain o15 where o15: "CalculateTunnelData v (kline15MData v) = Inr o15"
    and b4: "(case o15 of None \<Rightarrow> Inr None
                   | Some t15 \<Rightarrow>
                     pbind (last_elem t15) (\<lambda>current15M.
                     pbind (last_elem (kline15MData v)) (\<lambda>currentKline.
                       case checkLongSignal v slow current15M currentKline (Symbol (hd klines)) of
                         Some signal \<Rightarrow> Inr (Some signal)
                       | None \<Rightarrow>
                           (case checkShortSignal v slow current15M currentKline (Symbol (hd klines)) of
                              Some signal \<Rightarrow> Inr (Some signal)
                            | None \<Rightarrow> Inr None)))) = Inr (Some s)"
    by (elim exE conjE) (rule that; assumption)
  then obtain t15 where t15: "o15 = Some t15" by (cases o15) simp_all
  from b4[unfolded t15, simplified] have b5: "pbind (last_elem t15) (\<lambda>current15M.
                     pbind (last_elem (kline15MData v)) (\<lambda>currentKline.
                       case checkLongSignal v slow current15M currentKline (Symbol (hd klines)) of
                         Some signal \<Rightarrow> Inr (Some signal)
                       | None \<Rightarrow>
                           (case checkShortSignal v slow current15M currentKline (Symbol (hd klines)) of
                              Some signal \<Rightarrow> Inr (Some signal)
                            | None \<Rightarrow> Inr None))) = Inr (Some s)" .
  from pbind_Inr_inv[OF b5] obtain fast where fast: "last_elem t15 = Inr fast"
    and b6: "pbind (last_elem (kline15MData v)) (\<lambda>currentKline.
                       case checkLongSignal v slow fast currentKline (Symbol (hd klines)) of
                         Some signal \<Rightarrow> Inr (Some signal)
                       | None \<Rightarrow>
                           (case checkShortSignal v slow fast currentKline (Symbol (hd klines)) of
                              Some signal \<Rightarrow> Inr (Some signal)
                            | None \<Rightarrow> Inr None)) = Inr (Some s)"
    by (elim exE conjE) (rule that; assumption)
  from pbind_Inr_inv[OF b6] obtain k where k: "last_elem (kline15MData v) = Inr k"
    and b7: "(case checkLongSignal v slow fast k (Symbol (hd klines)) of
                         Some signal \<Rightarrow> Inr (Some signal)
                       | None \<Rightarrow>
                           (case checkShortSignal v slow fast k (Symbol (hd klines)) of
                              Some signal \<Rightarrow> Inr (Some signal)
                            | None \<Rightarrow> Inr None)) = (Inr (Some s) :: panic + TradingSignal option)"
    by (elim exE conjE) (rule that; assumption)
  have t4ne: "t4 \<noteq> []" "last t4 = slow" using slow by (auto simp: last_elem_def split: if_splits)
  have t15ne: "t15 \<noteq> []" "last t15 = fast" using fast by (auto simp: last_elem_def split: if_splits)
  have kne: "kline15MData v \<noteq> []" "k = last (kline15MData v)"
    using k by (auto simp: last_elem_def split: if_splits)
  have c4: "current_tunnel v (kline4HData v) = Some slow"
    using o4 t4 t4ne by (simp add: current_tunnel_def)
  have c15: "current_tunnel v (kline15MData v) = Some fast"
    using o15 t15 t15ne by (simp add: current_tunnel_def)
  have "long_entry_conditions slow fast (Close k)
          \<and> s = entry_signal v slow fast k (Symbol (hd klines)) True
        \<or> \<not> long_entry_conditions slow fast (Close k)
          \<and> short_entry_conditions slow fast (Close k)
          \<and> s = entry_signal v slow fast k (Symbol (hd klines)) False"
    using b7 by (auto simp: checkLongSignal_eq checkShortSignal_eq split: if_splits)
  then show ?thesis using v' ne kne c4 c15 by auto
qed

lemma entry_signal_fields:
  "Type (entry_signal v slow fast kline symbol isLong) = (if isLong then SignalBuy else SignalSell)"
  "Price (entry_signal v slow fast kline symbol isLong) = Close kline"
  "StopLoss (entry_signal v slow fast kline symbol isLong) =
     (if isLong then min (MidTunnelLower fast) (LongTunnelUpper fast) * (998 / 1000)
      else max (MidTunnelUpper fast) (LongTunnelLower fast) * (1002 / 1000))"
  "TakeProfit (entry_signal v slow fast kline symbol isLong) =
     (if isLong
      then Close kline + (Close kline - StopLoss (entry_signal v slow fast kline symbol isLong))
             * NewFromFloat (riskRewardRatio v)
      else Close kline - (StopLoss (entry_signal v slow fast kline symbol isLong) - Close kline)
             * NewFromFloat (riskRewardRatio v))"
  "Confidence (entry_signal v slow fast kline symbol isLong) =
     float64_round (confidence_score (slow_separation slow isLong) (momentum_favorable fast isLong))"
  by (simp_all add: entry_signal_def Let_def)

text \<open>What an emitted signal is, in one statement shared by the properties below.\<close>

lemma GenerateSignal_emitted:
  assumes "GenerateSignal v klines = (v', Inr (Some s))"
  shows "\<exists>slow fast isLong.
      current_tunnel v (kline4HData v) = Some slow
    \<and> current_tunnel v (kline15MData v) = Some fast
    \<and> s = entry_signal v slow fast (last (kline15MData v)) (Symbol (hd klines)) isLong
    \<and> (if isLong then long_entry_conditions slow fast (Close (last (kline15MData v)))
        else short_entry_conditions slow fast (Close (last (kline15MData v))))"
proof -
  from GenerateSignal_Some_inv[OF assms] obtain slow fast where
    t: "current_tunnel v (kline4HData v) = Some slow" "current_tunnel v (kline15MData v) = Some fast"
    and d: "long_entry_conditions slow fast (Close (last (kline15MData v)))
                \<and> s = entry_signal v slow fast (last (kline15MData v)) (Symbol (hd klines)) True
              \<or> \<not> long_entry_conditions slow fast (Close (last (kline15MData v)))
                \<and> short_entry_conditions slow fast (Close (last (kline15MData v)))
                \<and> s = entry_signal v slow fast (last (kline15MData v)) (Symbol (hd klines)) False"
    by blast
  from d show ?thesis
  proof
    assume "long_entry_conditions slow fast (Close (last (kline15MData v)))
                \<and> s = entry_signal v slow fast (last (kline15MData v)) (Symbol (hd klines)) True"
    then show ?thesis using t by (intro exI[of _ slow] exI[of _ fast] exI[of _ True]) simp
  next
    assume "\<not> long_entry_conditions slow fast (Close (last (kline15MData v)))
                \<and> short_entry_conditions slow fast (Close (last (kline15MData v)))
                \<and> s = entry_signal v slow fast (last (kline15MData v)) (Symbol (hd klines)) False"
    then show ?thesis using t by (intro exI[of _ slow] exI[of _ fast] exI[of _ False]) simp
  qed
qed

lemma long_levels_order:
  fixes price stop ratio :: rat
  assumes "0 < ratio"
  shows "(stop < price \<and> price < price + (price - stop) * ratio) \<longleftrightarrow> stop < price"
    and "price \<le> stop \<Longrightarrow> price + (price - stop) * ratio \<le> price"
proof -
  show "(stop < price \<and> price < price + (price - stop) * ratio) \<longleftrightarrow> stop < price"
    using assms by (auto simp: mult_pos_pos)
  show "price \<le> stop \<Longrightarrow> price + (price - stop) * ratio \<le> price"
    using assms by (simp add: mult_nonpos_nonneg)
qed

lemma short_levels_order:
  fixes price stop ratio :: rat
  assumes "0 < ratio"
  shows "(price - (stop - price) * ratio < price \<and> price < stop) \<longleftrightarrow> price < stop"
    and "stop \<le> price \<Longrightarrow> price \<le> price - (stop - price) * ratio"
proof -
  show "(price - (stop - price) * ratio < price \<and> price < stop) \<longleftrightarrow> price < stop"
    using assms by (auto simp: mult_pos_pos)
  show "stop \<le> price \<Longrightarrow> price \<le> price - (stop - price) * ratio"
    using assms by (simp add: mult_nonpos_nonneg)
qed

section \<open>The examples evaluated\<close>

lemma ValidateParameters_periods: "ValidateParameters v = None \<Longrightarrow> periods_positive v"
  by (auto simp: ValidateParameters_def periods_positive_def split: if_splits)

lemmas ema_eval = latest_ema_def CalculateEMA_defined ema_alpha_exact ema_step_def
  DivRound_def DivisionPrecision_def round_half_away_def floor_rat_numeral numeral_eq_Suc

lemma latest_ema_slow:
  "latest_ema slow_closes 3 = Some (235 / 2)"
  "latest_ema slow_closes 4 = Some 116"
  "latest_ema slow_closes 7 = Some (455 / 4)"
  "latest_ema slow_closes 9 = Some 113"
  "latest_ema slow_closes 15 = Some 111"
  unfolding slow_closes_def by (simp_all add: ema_eval)

lemma latest_ema_pullback:
  "latest_ema pullback_closes 3 = Some (449 / 4)"
  "latest_ema pullback_closes 4 = Some 113"
  "latest_ema pullback_closes 7 = Some (1853 / 16)"
  "latest_ema pullback_closes 9 = Some (586 / 5)"
  "latest_ema pullback_closes 15 = Some (609 / 5)"
  unfolding pullback_closes_def by (simp_all add: ema_eval)

lemma latest_ema_spike:
  "latest_ema spike_closes 3 = Some (491 / 4)"
  "latest_ema spike_closes 4 = Some (618 / 5)"
  "latest_ema spike_closes 7 = Some (3969 / 32)"
  "latest_ema spike_closes 9 = Some (619 / 5)"
  "latest_ema spike_closes 15 = Some (611 / 5)"
  unfolding spike_closes_def by (simp_all add: ema_eval)

lemma feed_15m:
  "length (kline15MData v) + length ks \<le> 1000 \<Longrightarrow>
     feed v ''15m'' ks = v\<lparr>kline15MData := kline15MData v @ ks\<rparr>"
proof (induction ks arbitrary: v)
  case Nil
  then show ?case by (simp add: feed_def)
next
  case (Cons k ks)
  have step: "UpdateKlineData v k ''15m'' = v\<lparr>kline15MData := kline15MData v @ [k]\<rparr>"
    using Cons.prems by (simp add: UpdateKlineData_def Let_def)
  have "feed v ''15m'' (k # ks) = feed (UpdateKlineData v k ''15m'') ''15m'' ks"
    by (simp add: feed_def)
  also have "\<dots> = (UpdateKlineData v k ''15m'')\<lparr>kline15MData := kline15MData (UpdateKlineData v k ''15m'') @ ks\<rparr>"
    using Cons.prems by (intro Cons.IH) (simp add: step)
  finally show ?case by (simp add: step)
qed

lemma feed_4h:
  "length (kline4HData v) + length ks \<le> 500 \<Longrightarrow>
     feed v ''4h'' ks = v\<lparr>kline4HData := kline4HData v @ ks\<rparr>"
proof (induction ks arbitrary: v)
  case Nil
  then show ?case by (simp add: feed_def)
next
  case (Cons k ks)
  have step: "UpdateKlineData v k ''4h'' = v\<lparr>kline4HData := kline4HData v @ [k]\<rparr>"
    using Cons.prems by (simp add: UpdateKlineData_def Let_def)
  have "feed v ''4h'' (k # ks) = feed (UpdateKlineData v k ''4h'') ''4h'' ks"
    by (simp add: feed_def)
  also have "\<dots> = (UpdateKlineData v k ''4h'')\<lparr>kline4HData := kline4HData (UpdateKlineData v k ''4h'') @ ks\<rparr>"
    using Cons.prems by (intro Cons.IH) (simp add: step)
  finally show ?case by (simp add: step)
qed

lemma bars_facts:
  "length (bars closes) = length closes" "map Close (bars closes) = closes"
proof -
  show "length (bars closes) = length closes" by (simp add: bars_def)
  have "map Close (bars closes) = map fst (zip closes [0..<length closes])"
    by (simp add: bars_def bar_def case_prod_unfold comp_def)
  then show "map Close (bars closes) = closes" by simp
qed

lemma last_bars: "bars (cs @ [c]) = bars cs @ [bar c (int (length cs))]"
  by (simp add: bars_def)

lemma closes_length:
  "length slow_closes = 15" "length pullback_closes = 15" "length spike_closes = 15"
  by (simp_all add: slow_closes_def pullback_closes_def spike_closes_def)

lemma example_states:
  "pullback_state = example_strategy\<lparr>kline15MData := bars pullback_closes, kline4HData := bars slow_closes\<rparr>"
  "spike_state = example_strategy\<lparr>kline15MData := bars spike_closes, kline4HData := bars slow_closes\<rparr>"
  by (simp_all add: pullback_state_def spike_state_def feed_15m feed_4h bars_facts closes_length
      example_strategy_def SetParameters_def NewVegasTunnelStrategy_def)

lemma example_periods:
  "shortEMAPeriod example_strategy = 3" "midTunnel1Period example_strategy = 4"
  "midTunnel2Period example_strategy = 7" "longTunnel1Period example_strategy = 9"
  "longTunnel2Period example_strategy = 15"
  "NewFromFloat (riskRewardRatio example_strategy) = 2"
  by (simp_all add: example_strategy_def SetParameters_def NewVegasTunnelStrategy_def float64_literals
      float64_confidence_sums)

lemma example_positive:
  "periods_positive example_strategy"
  by (simp add: periods_positive_def example_periods)

lemma example_state_facts:
  "periods_positive pullback_state" "periods_positive spike_state"
  "sufficient_history pullback_state (kline15MData pullback_state)"
  "sufficient_history pullback_state (kline4HData pullback_state)"
  "sufficient_history spike_state (kline15MData spike_state)"
  "sufficient_history spike_state (kline4HData spike_state)"
  by (simp_all add: example_states periods_positive_def sufficient_history_def example_periods
      bars_facts closes_length)

lemma example_tunnels:
  "current_tunnel pullback_state (kline4HData pullback_state) = Some slow_tunnel"
  "current_tunnel pullback_state (kline15MData pullback_state) = Some pullback_tunnel"
  "current_tunnel spike_state (kline4HData spike_state) = Some slow_tunnel"
  "current_tunnel spike_state (kline15MData spike_state) = Some spike_tunnel"
  unfolding slow_tunnel_def pullback_tunnel_def spike_tunnel_def
  by (rule current_tunnel_latest[OF example_state_facts(1) example_state_facts(4)]
           current_tunnel_latest[OF example_state_facts(1) example_state_facts(3)]
           current_tunnel_latest[OF example_state_facts(2) example_state_facts(6)]
           current_tunnel_latest[OF example_state_facts(2) example_state_facts(5)];
      simp add: example_states example_periods bars_facts latest_ema_slow latest_ema_pullback
        latest_ema_spike)+

lemma example_tunnel_fields:
  "TrendDirection slow_tunnel = TrendBullish" "MidTunnelLower slow_tunnel = 455 / 4"
  "MidTunnelUpper slow_tunnel = 116" "LongTunnelUpper slow_tunnel = 113"
  "LongTunnelLower slow_tunnel = 111"
  "EMA12 pullback_tunnel = 449 / 4" "MidTunnelLower pullback_tunnel = 113"
  "MidTunnelUpper pullback_tunnel = 1853 / 16" "LongTunnelLower pullback_tunnel = 586 / 5"
  "LongTunnelUpper pullback_tunnel = 609 / 5"
  "EMA12 spike_tunnel = 491 / 4" "MidTunnelLower spike_tunnel = 618 / 5"
  "MidTunnelUpper spike_tunnel = 3969 / 32" "LongTunnelLower spike_tunnel = 611 / 5"
  "LongTunnelUpper spike_tunnel = 619 / 5"
  by (simp_all add: slow_tunnel_def pullback_tunnel_def spike_tunnel_def fillTunnel_fields
      fillTunnel_direction determineTrendDirection_def)

lemma example_last_bars:
  "last (kline15MData pullback_state) = bar 122 14" "last (kline15MData spike_state) = bar 123 14"
  by (simp_all add: example_states pullback_closes_def spike_closes_def
      last_bars[of "replicate 13 125 @ [80]" 122, simplified]
      last_bars[of "replicate 12 120 @ [170, 100]" 123, simplified])

lemma example_conditions:
  "long_entry_conditions slow_tunnel pullback_tunnel 122"
  "long_entry_conditions slow_tunnel spike_tunnel 123"
  by (simp_all add: long_entry_conditions_def within_tolerance_band_def example_tunnel_fields)

lemma example_signals:
  "GenerateSignal pullback_state [bar 122 14] = (pullback_state, Inr (Some pullback_signal))"
  "GenerateSignal spike_state [bar 123 14] = (spike_state, Inr (Some spike_signal))"
proof -
  have rr: "NewFromFloat (riskRewardRatio pullback_state) = 2"
    "NewFromFloat (riskRewardRatio spike_state) = 2"
    using example_periods(6) by (simp_all add: example_states)
  have c: "Close (bar 122 14) = 122" "Close (bar 123 14) = 123"
    "Symbol (bar 122 14) = ''BTCUSDT''" "Symbol (bar 123 14) = ''BTCUSDT''"
    "Timestamp (bar 122 14) = 14" "Timestamp (bar 123 14) = 14"
    by (simp_all add: bar_def)
  show "GenerateSignal pullback_state [bar 122 14] = (pullback_state, Inr (Some pullback_signal))"
    by (simp add: GenerateSignal_positive[OF example_state_facts(1)] example_tunnels
        example_last_bars c example_conditions entry_signal_def pullback_signal_def rr
        example_tunnel_fields slow_separation_def momentum_favorable_def confidence_score_def)
  show "GenerateSignal spike_state [bar 123 14] = (spike_state, Inr (Some spike_signal))"
    by (simp add: GenerateSignal_positive[OF example_state_facts(2)] example_tunnels
        example_last_bars c example_conditions entry_signal_def spike_signal_def rr
        example_tunnel_fields slow_separation_def momentum_favorable_def confidence_score_def)
qed

lemma ValidateParameters_examples:
  "ValidateParameters NewVegasTunnelStrategy = None" "ValidateParameters example_strategy = None"
  by (simp_all add: ValidateParameters_def example_strategy_def SetParameters_def
      NewVegasTunnelStrategy_def float_eval)

section \<open>Properties of the signal engine\<close>

text \<open>
  Claim C4. For every bar history, a Buy (Sell) signal is emitted only when all entry
  conditions hold on the tunnels of the latest bars: the slow trend is Bullish (Bearish),
  the latest fast close is strictly above the lower bound (strictly below the upper bound)
  of the slow mid tunnel, it lies within the 0.2% tolerance band of the fast mid tunnel or
  of the fast long tunnel, and it is strictly above (strictly below) the fast short EMA.
  With positive periods, which is all \<open>ValidateParameters\<close> lets through, the evaluation
  never panics, leaves the strategy as it was, and returns no signal exactly when the
  conditions of neither direction hold.
\<close>

theorem GenerateSignal_entry_conditions:
  "(GenerateSignal v klines = (v', Inr (Some s)) \<longrightarrow>
      (\<exists>slow fast. current_tunnel v (kline4HData v) = Some slow
         \<and> current_tunnel v (kline15MData v) = Some fast
         \<and> (Type s = SignalBuy \<and> long_entry_conditions slow fast (Close (last (kline15MData v)))
            \<or> Type s = SignalSell \<and> short_entry_conditions slow fast (Close (last (kline15MData v))))))
   \<and> (periods_positive v \<longrightarrow>
      (\<exists>r. GenerateSignal v klines = (v, Inr r)
         \<and> (r = None \<longleftrightarrow>
              \<not> (klines \<noteq> [] \<and> (\<exists>slow fast. current_tunnel v (kline4HData v) = Some slow
                     \<and> current_tunnel v (kline15MData v) = Some fast
                     \<and> (long_entry_conditions slow fast (Close (last (kline15MData v)))
                        \<or> short_entry_conditions slow fast (Close (last (kline15MData v)))))))))"
proof (intro conjI impI)
  assume a: "GenerateSignal v klines = (v', Inr (Some s))"
  from GenerateSignal_emitted[OF a] obtain slow fast isLong where
    t: "current_tunnel v (kline4HData v) = Some slow" "current_tunnel v (kline15MData v) = Some fast"
    and s: "s = entry_signal v slow fast (last (kline15MData v)) (Symbol (hd klines)) isLong"
    and c: "if isLong then long_entry_conditions slow fast (Close (last (kline15MData v)))
        else short_entry_conditions slow fast (Close (last (kline15MData v)))"
    by blast
  have "Type s = SignalBuy \<and> long_entry_conditions slow fast (Close (last (kline15MData v)))
      \<or> Type s = SignalSell \<and> short_entry_conditions slow fast (Close (last (kline15MData v)))"
    using c unfolding s by (cases isLong) (simp_all add: entry_signal_fields)
  then show "\<exists>slow fast. current_tunnel v (kline4HData v) = Some slow
         \<and> current_tunnel v (kline15MData v) = Some fast
         \<and> (Type s = SignalBuy \<and> long_entry_conditions slow fast (Close (last (kline15MData v)))
            \<or> Type s = SignalSell \<and> short_entry_conditions slow fast (Close (last (kline15MData v))))"
    using t by blast
next
  assume p: "periods_positive v"
  show "\<exists>r. GenerateSignal v klines = (v, Inr r)
         \<and> (r = None \<longleftrightarrow>
              \<not> (klines \<noteq> [] \<and> (\<exists>slow fast. current_tunnel v (kline4HData v) = Some slow
                     \<and> current_tunnel v (kline15MData v) = Some fast
                     \<and> (long_entry_conditions slow fast (Close (last (kline15MData v)))
                        \<or> short_entry_conditions slow fast (Close (last (kline15MData v)))))))"
    unfolding GenerateSignal_positive[OF p]
    by (auto split: option.splits)
qed

theorem GenerateSignal_entry_conditions_witness:
  "periods_positive pullback_state
   \<and> GenerateSignal pullback_state [bar 122 14] = (pullback_state, Inr (Some pullback_signal))
   \<and> Type pullback_signal = SignalBuy
   \<and> current_tunnel pullback_state (kline4HData pullback_state) = Some slow_tunnel
   \<and> current_tunnel pullback_state (kline15MData pullback_state) = Some pullback_tunnel
   \<and> long_entry_conditions slow_tunnel pullback_tunnel (Close (last (kline15MData pullback_state)))
   \<and> periods_positive example_strategy
   \<and> GenerateSignal example_strategy [bar 122 14] = (example_strategy, Inr None)"
proof -
  have buy: "Type pullback_signal = SignalBuy" by (simp add: pullback_signal_def)
  from GenerateSignal_entry_conditions[of pullback_state "[bar 122 14]" pullback_state pullback_signal]
    example_signals(1)
  have "long_entry_conditions slow_tunnel pullback_tunnel (Close (last (kline15MData pullback_state)))"
    by (simp add: example_tunnels buy)
  moreover
  have "current_tunnel example_strategy (kline4HData example_strategy) = None"
    by (rule current_tunnel_insufficient[OF example_positive])
       (simp add: sufficient_history_def example_periods example_strategy_def SetParameters_def
          NewVegasTunnelStrategy_def)
  with GenerateSignal_entry_conditions[of example_strategy "[bar 122 14]" example_strategy pullback_signal]
    example_positive
  have "GenerateSignal example_strategy [bar 122 14] = (example_strategy, Inr None)"
    by auto
  ultimately show ?thesis
    using example_signals(1) example_state_facts(1) example_positive example_tunnels buy by simp
qed

text \<open>
  Claim C3, as amended. With a positive risk-reward ratio (the default is 2), a Buy signal
  has stop-loss < trigger < take-profit exactly when the trigger price is strictly above
  0.998 times the lower of the fast mid-tunnel lower bound and the fast long-tunnel upper
  bound, in particular whenever that bound is positive and the trigger is at or above it;
  a Sell signal has take-profit < trigger < stop-loss exactly when the trigger price is
  strictly below 1.002 times the higher of the fast mid-tunnel upper bound and the fast
  long-tunnel lower bound, in particular whenever that bound is positive and the trigger is
  at or below it. Every emitted signal is a Buy or a Sell.
\<close>

theorem GenerateSignal_stop_target_order:
  assumes "GenerateSignal v klines = (v', Inr (Some s))"
    and "0 < NewFromFloat (riskRewardRatio v)"
  shows "\<exists>fast. current_tunnel v (kline15MData v) = Some fast
     \<and> (Type s = SignalBuy \<or> Type s = SignalSell)
     \<and> (Type s = SignalBuy \<longrightarrow>
          ((StopLoss s < Price s \<and> Price s < TakeProfit s)
             \<longleftrightarrow> min (MidTunnelLower fast) (LongTunnelUpper fast) * (998 / 1000) < Price s)
          \<and> (0 < min (MidTunnelLower fast) (LongTunnelUpper fast)
               \<and> min (MidTunnelLower fast) (LongTunnelUpper fast) \<le> Price s
               \<longrightarrow> StopLoss s < Price s \<and> Price s < TakeProfit s))
     \<and> (Type s = SignalSell \<longrightarrow>
          ((TakeProfit s < Price s \<and> Price s < StopLoss s)
             \<longleftrightarrow> Price s < max (MidTunnelUpper fast) (LongTunnelLower fast) * (1002 / 1000))
          \<and> (0 < max (MidTunnelUpper fast) (LongTunnelLower fast)
               \<and> Price s \<le> max (MidTunnelUpper fast) (LongTunnelLower fast)
               \<longrightarrow> TakeProfit s < Price s \<and> Price s < StopLoss s))"
proof -
  from GenerateSignal_emitted[OF assms(1)] obtain slow fast isLong where
    fast: "current_tunnel v (kline15MData v) = Some fast"
    and s: "s = entry_signal v slow fast (last (kline15MData v)) (Symbol (hd klines)) isLong"
    by blast
  define price where "price = Close (last (kline15MData v))"
  define lo where "lo = min (MidTunnelLower fast) (LongTunnelUpper fast)"
  define hi where "hi = max (MidTunnelUpper fast) (LongTunnelLower fast)"
  define ratio where "ratio = NewFromFloat (riskRewardRatio v)"
  have r: "0 < ratio" using assms(2) by (simp add: ratio_def)
  have lo_pos: "0 < lo \<Longrightarrow> lo \<le> price \<Longrightarrow> lo * (998 / 1000) < price"
  proof -
    assume a: "0 < lo" "lo \<le> price"
    have "lo * (998 / 1000) < lo * 1" using a(1) by (intro mult_strict_left_mono) simp_all
    then show ?thesis using a(2) by simp
  qed
  have hi_pos: "0 < hi \<Longrightarrow> price \<le> hi \<Longrightarrow> price < hi * (1002 / 1000)"
  proof -
    assume a: "0 < hi" "price \<le> hi"
    have "hi * 1 < hi * (1002 / 1000)" using a(1) by (intro mult_strict_left_mono) simp_all
    then show ?thesis using a(2) by simp
  qed
  show ?thesis
  proof (cases isLong)
    case True
    then have f: "Type s = SignalBuy" "Price s = price" "StopLoss s = lo * (998 / 1000)"
      "TakeProfit s = price + (price - lo * (998 / 1000)) * ratio"
      unfolding s price_def lo_def ratio_def by (simp_all add: entry_signal_fields)
    have iff: "(StopLoss s < Price s \<and> Price s < TakeProfit s) \<longleftrightarrow> lo * (998 / 1000) < Price s"
      unfolding f by (rule long_levels_order(1)[OF r])
    have pos: "0 < lo \<and> lo \<le> Price s \<longrightarrow> StopLoss s < Price s \<and> Price s < TakeProfit s"
      using iff lo_pos f(2) by blast
    show ?thesis
      using fast f(1) iff[unfolded lo_def] pos[unfolded lo_def]
      by (intro exI[of _ fast]) simp
  next
    case False
    then have f: "Type s = SignalSell" "Price s = price" "StopLoss s = hi * (1002 / 1000)"
      "TakeProfit s = price - (hi * (1002 / 1000) - price) * ratio"
      unfolding s price_def hi_def ratio_def by (simp_all add: entry_signal_fields)
    have iff: "(TakeProfit s < Price s \<and> Price s < StopLoss s) \<longleftrightarrow> Price s < hi * (1002 / 1000)"
      unfolding f by (rule short_levels_order(1)[OF r])
    have pos: "0 < hi \<and> Price s \<le> hi \<longrightarrow> TakeProfit s < Price s \<and> Price s < StopLoss s"
      using iff hi_pos f(2) by blast
    show ?thesis
      using fast f(1) iff[unfolded hi_def] pos[unfolded hi_def]
      by (intro exI[of _ fast]) simp
  qed
qed

theorem GenerateSignal_stop_target_order_witness:
  "GenerateSignal pullback_state [bar 122 14] = (pullback_state, Inr (Some pullback_signal))
   \<and> 0 < NewFromFloat (riskRewardRatio pullback_state)
   \<and> Type pullback_signal = SignalBuy
   \<and> StopLoss pullback_signal < Price pullback_signal
   \<and> Price pullback_signal < TakeProfit pullback_signal"
proof -
  have rr: "0 < NewFromFloat (riskRewardRatio pullback_state)"
    using example_periods(6) by (simp add: example_states)
  from GenerateSignal_stop_target_order[OF example_signals(1) rr]
  have "(StopLoss pullback_signal < Price pullback_signal \<and> Price pullback_signal < TakeProfit pullback_signal)
      \<longleftrightarrow> min (MidTunnelLower pullback_tunnel) (LongTunnelUpper pullback_tunnel) * (998 / 1000)
            < Price pullback_signal"
    by (simp add: example_tunnels pullback_signal_def)
  then have "StopLoss pullback_signal < Price pullback_signal \<and> Price pullback_signal < TakeProfit pullback_signal"
    by (simp add: example_tunnel_fields pullback_signal_def)
  then show ?thesis using example_signals(1) rr by (simp add: pullback_signal_def)
qed

text \<open>
  Claim C3 as stated fails. On the fast history with a spike and a dip the close 123 is
  inside the band of the long tunnel and above the short EMA, but below 0.998 times the
  mid-tunnel lower bound 123.6: the Buy signal has its stop at 123.3528, above the trigger,
  and its target at 122.2944, below it.
\<close>

theorem GenerateSignal_stop_above_trigger_counterexample:
  "GenerateSignal spike_state [bar 123 14] = (spike_state, Inr (Some spike_signal))
   \<and> Type spike_signal = SignalBuy
   \<and> Price spike_signal = 123 \<and> StopLoss spike_signal = 154191 / 1250
   \<and> TakeProfit spike_signal = 76434 / 625
   \<and> Price spike_signal < StopLoss spike_signal \<and> TakeProfit spike_signal < Price spike_signal"
  using example_signals(2) by (simp add: spike_signal_def)

text \<open>
  Claim C5, as amended. For every emitted Buy signal the stop-loss is 0.998 times the lower
  of the fast mid-tunnel lower bound and the fast long-tunnel upper bound, and the
  take-profit is \<open>trigger + (trigger - stop) * ratio\<close>; for every emitted Sell signal the
  stop-loss is 1.002 times the higher of the fast mid-tunnel upper bound and the fast
  long-tunnel lower bound, and the take-profit is \<open>trigger - (stop - trigger) * ratio\<close>. The
  trigger is the latest fast close and the ratio is the decimal of \<open>riskRewardRatio\<close>, 2 by
  default.
\<close>

theorem GenerateSignal_stop_and_target_levels:
  assumes "GenerateSignal v klines = (v', Inr (Some s))"
  shows "\<exists>fast. current_tunnel v (kline15MData v) = Some fast
     \<and> Price s = Close (last (kline15MData v))
     \<and> (Type s = SignalBuy \<or> Type s = SignalSell)
     \<and> (Type s = SignalBuy \<longrightarrow>
          StopLoss s = min (MidTunnelLower fast) (LongTunnelUpper fast) * (998 / 1000)
          \<and> TakeProfit s = Price s + (Price s - StopLoss s) * NewFromFloat (riskRewardRatio v))
     \<and> (Type s = SignalSell \<longrightarrow>
          StopLoss s = max (MidTunnelUpper fast) (LongTunnelLower fast) * (1002 / 1000)
          \<and> TakeProfit s = Price s - (StopLoss s - Price s) * NewFromFloat (riskRewardRatio v))
     \<and> NewFromFloat (riskRewardRatio NewVegasTunnelStrategy) = 2"
proof -
  from GenerateSignal_emitted[OF assms] obtain slow fast isLong where
    fast: "current_tunnel v (kline15MData v) = Some fast"
    and s: "s = entry_signal v slow fast (last (kline15MData v)) (Symbol (hd klines)) isLong"
    by blast
  have d: "NewFromFloat (riskRewardRatio NewVegasTunnelStrategy) = 2"
    by (simp add: NewVegasTunnelStrategy_def float64_literals float64_confidence_sums)
  show ?thesis
    using fast d unfolding s
    by (intro exI[of _ fast]) (cases isLong; simp add: entry_signal_fields)
qed

theorem GenerateSignal_stop_and_target_levels_witness:
  "GenerateSignal pullback_state [bar 122 14] = (pullback_state, Inr (Some pullback_signal))
   \<and> Type pullback_signal = SignalBuy
   \<and> StopLoss pullback_signal = 113 * (998 / 1000)
   \<and> TakeProfit pullback_signal = 122 + (122 - 113 * (998 / 1000)) * 2"
proof -
  from GenerateSignal_stop_and_target_levels[OF example_signals(1)]
  have "StopLoss pullback_signal
          = min (MidTunnelLower pullback_tunnel) (LongTunnelUpper pullback_tunnel) * (998 / 1000)
      \<and> TakeProfit pullback_signal = Price pullback_signal
          + (Price pullback_signal - StopLoss pullback_signal) * NewFromFloat (riskRewardRatio pullback_state)"
    by (simp add: example_tunnels pullback_signal_def)
  then show ?thesis
    using example_signals(1) example_periods(6)
    by (simp add: example_tunnel_fields pullback_signal_def example_states)
qed

text \<open>
  Claim C5 as stated fails. On the pullback history the trigger is 122, the fast mid-tunnel
  lower bound 113 and the fast long-tunnel upper bound 121.8: the nearer of the two is
  121.8, and the stop is taken from 113.
\<close>

theorem GenerateSignal_nearer_bound_counterexample:
  "GenerateSignal pullback_state [bar 122 14] = (pullback_state, Inr (Some pullback_signal))
   \<and> current_tunnel pullback_state (kline15MData pullback_state) = Some pullback_tunnel
   \<and> Type pullback_signal = SignalBuy \<and> Price pullback_signal = 122
   \<and> MidTunnelLower pullback_tunnel = 113 \<and> LongTunnelUpper pullback_tunnel = 609 / 5
   \<and> nearer_to (Price pullback_signal) (MidTunnelLower pullback_tunnel) (LongTunnelUpper pullback_tunnel)
        = 609 / 5
   \<and> StopLoss pullback_signal = 113 * (998 / 1000)
   \<and> StopLoss pullback_signal
        \<noteq> nearer_to (Price pullback_signal) (MidTunnelLower pullback_tunnel)
             (LongTunnelUpper pullback_tunnel) * (998 / 1000)"
  using example_signals(1) example_tunnels(2)
  by (simp add: pullback_signal_def example_tunnel_fields nearer_to_def)

text \<open>
  Claim C6. For every emitted Buy or Sell signal the confidence is the float64 of the score
  0.6, plus 0.2 when the slow mid tunnel is fully separated from the slow long tunnel on the
  side of the trade, plus 0.1 when the fast short EMA is on the favourable side of the fast
  mid-tunnel bound, capped at 1; it lies in the closed interval from 0 to 1. The same holds
  of \<open>calculateSignalConfidence\<close> on any pair of tunnels.
\<close>

theorem GenerateSignal_confidence:
  "(GenerateSignal v klines = (v', Inr (Some s)) \<longrightarrow>
      (\<exists>slow fast. current_tunnel v (kline4HData v) = Some slow
         \<and> current_tunnel v (kline15MData v) = Some fast
         \<and> Confidence s = float64_round (confidence_score
               (slow_separation slow (Type s = SignalBuy)) (momentum_favorable fast (Type s = SignalBuy)))
         \<and> 0 \<le> Confidence s \<and> Confidence s \<le> 1))
   \<and> calculateSignalConfidence slow' fast' isLong
        = float64_round (confidence_score (slow_separation slow' isLong) (momentum_favorable fast' isLong))
   \<and> 0 \<le> calculateSignalConfidence slow' fast' isLong
   \<and> calculateSignalConfidence slow' fast' isLong \<le> 1"
proof (intro conjI impI)
  assume a: "GenerateSignal v klines = (v', Inr (Some s))"
  from GenerateSignal_emitted[OF a] obtain slow fast l where
    t: "current_tunnel v (kline4HData v) = Some slow" "current_tunnel v (kline15MData v) = Some fast"
    and s: "s = entry_signal v slow fast (last (kline15MData v)) (Symbol (hd klines)) l"
    by blast
  have ty: "(Type s = SignalBuy) = l" unfolding s by (simp add: entry_signal_fields)
  have "Confidence s = float64_round (confidence_score
               (slow_separation slow (Type s = SignalBuy)) (momentum_favorable fast (Type s = SignalBuy)))"
    unfolding ty unfolding s by (simp add: entry_signal_fields)
  then show "\<exists>slow fast. current_tunnel v (kline4HData v) = Some slow
         \<and> current_tunnel v (kline15MData v) = Some fast
         \<and> Confidence s = float64_round (confidence_score
               (slow_separation slow (Type s = SignalBuy)) (momentum_favorable fast (Type s = SignalBuy)))
         \<and> 0 \<le> Confidence s \<and> Confidence s \<le> 1"
    using t float64_confidence_score_range by metis
next
  show "calculateSignalConfidence slow' fast' isLong
        = float64_round (confidence_score (slow_separation slow' isLong) (momentum_favorable fast' isLong))"
    by (rule calculateSignalConfidence_score)
  show "0 \<le> calculateSignalConfidence slow' fast' isLong"
    "calculateSignalConfidence slow' fast' isLong \<le> 1"
    unfolding calculateSignalConfidence_score using float64_confidence_score_range by simp_all
qed

theorem GenerateSignal_confidence_witness:
  "GenerateSignal pullback_state [bar 122 14] = (pullback_state, Inr (Some pullback_signal))
   \<and> slow_separation slow_tunnel True \<and> \<not> momentum_favorable pullback_tunnel True
   \<and> Confidence pullback_signal = float64_round (6 / 10 + 2 / 10)
   \<and> 0 \<le> Confidence pullback_signal \<and> Confidence pullback_signal \<le> 1"
proof -
  have b: "slow_separation slow_tunnel True" "\<not> momentum_favorable pullback_tunnel True"
    by (simp_all add: slow_separation_def momentum_favorable_def example_tunnel_fields)
  have ty: "Type pullback_signal = SignalBuy" by (simp add: pullback_signal_def)
  from GenerateSignal_confidence[of pullback_state "[bar 122 14]" pullback_state pullback_signal
      slow_tunnel pullback_tunnel True] example_signals(1)
  obtain slow fast where t: "current_tunnel pullback_state (kline4HData pullback_state) = Some slow"
    "current_tunnel pullback_state (kline15MData pullback_state) = Some fast"
    and c: "Confidence pullback_signal = float64_round (confidence_score
               (slow_separation slow (Type pullback_signal = SignalBuy))
               (momentum_favorable fast (Type pullback_signal = SignalBuy)))"
    and r: "0 \<le> Confidence pullback_signal" "Confidence pullback_signal \<le> 1"
    by blast
  have "slow = slow_tunnel" "fast = pullback_tunnel" using t example_tunnels by simp_all
  then have "Confidence pullback_signal = float64_round (6 / 10 + 2 / 10)"
    using c b ty by (simp add: confidence_score_def)
  then show ?thesis using b r example_signals(1) by simp
qed

section \<open>Properties of the exit engine\<close>

lemma CheckEMA12Exit_positive:
  assumes "periods_positive v"
  shows "CheckEMA12Exit v symbol isLong =
     Inr (if length (kline15MData v) < 2 then None
          else case current_tunnel v (kline15MData v) of None \<Rightarrow> None
          | Some fast \<Rightarrow>
              if exit_condition fast (Close (last (kline15MData v))) isLong
              then Some (exit_signal (last (kline15MData v)) symbol isLong) else None)"
proof (cases "length (kline15MData v) < 2")
  case True
  then show ?thesis by (simp add: CheckEMA12Exit_def)
next
  case False
  then have ne: "kline15MData v \<noteq> []" by auto
  consider (c) "current_tunnel v (kline15MData v) = None" "CalculateTunnelData v (kline15MData v) = Inr None"
    | (d) fast ts where "current_tunnel v (kline15MData v) = Some fast"
        "CalculateTunnelData v (kline15MData v) = Inr (Some ts)" "ts \<noteq> []" "last ts = fast"
    using CalculateTunnelData_by_current[OF assms, of "kline15MData v"] by (elim disjE exE conjE) auto
  then show ?thesis
  proof cases
    case c
    then show ?thesis using False by (simp add: CheckEMA12Exit_def pbind_def)
  next
    case d
    then show ?thesis
      using False ne
      by (cases isLong)
         (simp_all add: CheckEMA12Exit_def pbind_def last_elem_ne Let_def exit_condition_def
            exit_signal_def)
  qed
qed

text \<open>
  Claim C9. With positive periods, \<open>CheckEMA12Exit\<close> never panics and returns a signal if and
  only if the fast history is sufficient (at least two bars and at least as many as every
  period) and the latest close is strictly below the fast short EMA for a long position,
  strictly above it for a short position; the signal is of type \<open>SignalTakeProfit\<close> with the
  float64 0.9 as confidence and the latest close as price. In every other case, insufficient
  history included, it returns no signal. The fast short EMA is the latest value of the EMA
  series of the closes with the short period.
\<close>

theorem CheckEMA12Exit_trailing_exit:
  assumes "periods_positive v"
  shows "\<exists>r. CheckEMA12Exit v symbol isLong = Inr r
     \<and> ((\<exists>s. r = Some s) \<longleftrightarrow>
          2 \<le> length (kline15MData v) \<and> sufficient_history v (kline15MData v)
          \<and> (\<exists>fast. current_tunnel v (kline15MData v) = Some fast
                \<and> (if isLong then Close (last (kline15MData v)) < EMA12 fast
                    else EMA12 fast < Close (last (kline15MData v)))))
     \<and> (\<forall>s. r = Some s \<longrightarrow>
          Type s = SignalTakeProfit \<and> Confidence s = float64_round (9 / 10)
          \<and> Price s = Close (last (kline15MData v)))
     \<and> (\<forall>fast. current_tunnel v (kline15MData v) = Some fast \<longrightarrow>
          latest_ema (map Close (kline15MData v)) (shortEMAPeriod v) = Some (EMA12 fast))"
proof -
  let ?ks = "kline15MData v"
  let ?r = "if length ?ks < 2 then None
          else case current_tunnel v ?ks of None \<Rightarrow> None
          | Some fast \<Rightarrow>
              if exit_condition fast (Close (last ?ks)) isLong
              then Some (exit_signal (last ?ks) symbol isLong) else None"
  have eq: "CheckEMA12Exit v symbol isLong = Inr ?r"
    by (rule CheckEMA12Exit_positive[OF assms])
  have suff: "\<And>fast. current_tunnel v ?ks = Some fast \<Longrightarrow> sufficient_history v ?ks"
    using current_tunnel_Some_inv by blast
  have iff: "(\<exists>s. ?r = Some s) \<longleftrightarrow>
          2 \<le> length ?ks \<and> sufficient_history v ?ks
          \<and> (\<exists>fast. current_tunnel v ?ks = Some fast
                \<and> (if isLong then Close (last ?ks) < EMA12 fast else EMA12 fast < Close (last ?ks)))"
    using suff by (auto simp: exit_condition_def split: option.splits if_splits)
  have fields: "\<forall>s. ?r = Some s \<longrightarrow>
          Type s = SignalTakeProfit \<and> Confidence s = float64_round (9 / 10)
          \<and> Price s = Close (last ?ks)"
    by (auto simp: exit_signal_def split: option.splits if_splits)
  have ema: "\<forall>fast. current_tunnel v ?ks = Some fast \<longrightarrow>
          latest_ema (map Close ?ks) (shortEMAPeriod v) = Some (EMA12 fast)"
    using current_tunnel_EMA12 by blast
  show ?thesis using eq iff fields ema by blast
qed

theorem CheckEMA12Exit_trailing_exit_witness:
  "periods_positive pullback_state
   \<and> 2 \<le> length (kline15MData pullback_state)
   \<and> sufficient_history pullback_state (kline15MData pullback_state)
   \<and> current_tunnel pullback_state (kline15MData pullback_state) = Some pullback_tunnel
   \<and> EMA12 pullback_tunnel < Close (last (kline15MData pullback_state))
   \<and> (\<exists>s. CheckEMA12Exit pullback_state ''BTCUSDT'' False = Inr (Some s)
          \<and> Type s = SignalTakeProfit \<and> Confidence s = float64_round (9 / 10) \<and> Price s = 122)
   \<and> CheckEMA12Exit pullback_state ''BTCUSDT'' True = Inr None"
proof -
  have len: "2 \<le> length (kline15MData pullback_state)"
    by (simp add: example_states bars_facts closes_length)
  have cl: "Close (last (kline15MData pullback_state)) = 122"
    by (simp add: example_last_bars bar_def)
  have above: "EMA12 pullback_tunnel < Close (last (kline15MData pullback_state))"
    by (simp add: cl example_tunnel_fields)
  from CheckEMA12Exit_trailing_exit[OF example_state_facts(1), of "''BTCUSDT''" False]
  obtain r where r: "CheckEMA12Exit pullback_state ''BTCUSDT'' False = Inr r"
    "(\<exists>s. r = Some s) \<longleftrightarrow>
          2 \<le> length (kline15MData pullback_state)
          \<and> sufficient_history pullback_state (kline15MData pullback_state)
          \<and> (\<exists>fast. current_tunnel pullback_state (kline15MData pullback_state) = Some fast
                \<and> (if False then Close (last (kline15MData pullback_state)) < EMA12 fast
                    else EMA12 fast < Close (last (kline15MData pullback_state))))"
    "\<forall>s. r = Some s \<longrightarrow>
          Type s = SignalTakeProfit \<and> Confidence s = float64_round (9 / 10)
          \<and> Price s = Close (last (kline15MData pullback_state))"
    by blast
  have "\<exists>s. r = Some s"
    using r(2) len example_state_facts(3) example_tunnels(2) above by auto
  then obtain s where s: "r = Some s" by blast
  have short: "\<exists>s. CheckEMA12Exit pullback_state ''BTCUSDT'' False = Inr (Some s)
          \<and> Type s = SignalTakeProfit \<and> Confidence s = float64_round (9 / 10) \<and> Price s = 122"
    using r(1) r(3) s cl by auto
  from CheckEMA12Exit_trailing_exit[OF example_state_facts(1), of "''BTCUSDT''" True]
  obtain r' where r': "CheckEMA12Exit pullback_state ''BTCUSDT'' True = Inr r'"
    "(\<exists>s. r' = Some s) \<longleftrightarrow>
          2 \<le> length (kline15MData pullback_state)
          \<and> sufficient_history pullback_state (kline15MData pullback_state)
          \<and> (\<exists>fast. current_tunnel pullback_state (kline15MData pullback_state) = Some fast
                \<and> (if True then Close (last (kline15MData pullback_state)) < EMA12 fast
                    else EMA12 fast < Close (last (kline15MData pullback_state))))"
    by blast
  have "\<not> (\<exists>s. r' = Some s)"
    using r'(2) example_tunnels(2) above by auto
  then have long: "CheckEMA12Exit pullback_state ''BTCUSDT'' True = Inr None"
    using r'(1) by (cases r') auto
  show ?thesis
    using example_state_facts(1) len example_state_facts(3) example_tunnels(2) above short long
    by blast
qed

end
